theory Spec2Isabelle
  imports Main "HOL-Library.List_Lexorder"
begin


section \<open>Python strings\<close>

text \<open>
  A Python \<open>str\<close> is a sequence of Unicode code points, so a character is a \<open>nat\<close> and a
  string a list of them; \<open>len\<close>, slicing and \<open>startswith\<close> count code points, which matters
  for the Cyrillic markers of the diagram language. \<open>asc\<close> embeds an ASCII literal.
\<close>

type_synonym uchar = nat
type_synonym ustring = "nat list"

definition asc :: "string \<Rightarrow> ustring" where
  "asc s = map of_char s"

text \<open>\<open>str(n)\<close> of an integer: its decimal digits, with a minus sign when negative.\<close>

function str_nat :: "nat \<Rightarrow> ustring" where
  "str_nat n = (if n < 10 then [48 + n] else str_nat (n div 10) @ [48 + n mod 10])"
  by pat_completeness auto
termination
  by (relation "measure id") auto

definition str_int :: "int \<Rightarrow> ustring" where
  "str_int i = (if i < 0 then 45 # str_nat (nat (- i)) else str_nat (nat i))"

section \<open>sema.py: Symbol and SymbolTable\<close>

record symbol =
  sym_name :: ustring
  base_type :: ustring
  is_array :: bool
  array_size :: "int \<times> int"
  declared :: bool
  sym_line :: "int option"
  sym_pos :: "int option"

text \<open>The property \<open>Symbol.type\<close>: the Pascal spelling of the symbol's type.\<close>

definition sym_type :: "symbol \<Rightarrow> ustring" where
  "sym_type s =
     (if is_array s
      then asc ''array['' @ str_int (fst (array_size s)) @ asc ''..'' @
           str_int (snd (array_size s)) @ asc ''] of '' @ base_type s
      else base_type s)"

text \<open>
  \<open>SymbolTable.symbols\<close> is a dict keyed by name; an association list in insertion order
  with one entry per key, as a Python dict iterates.
\<close>

type_synonym symbol_table = "(ustring \<times> symbol) list"

definition lookup :: "symbol_table \<Rightarrow> ustring \<Rightarrow> symbol option" where
  "lookup st n = map_of st n"

definition get_all_symbols :: "symbol_table \<Rightarrow> symbol list" where
  "get_all_symbols st = map snd st"

text \<open>The keyword arguments of one \<open>define\<close> call, with the defaults of the signature.\<close>

record define_args =
  a_var_type :: ustring
  a_is_array :: bool
  a_array_size :: "(int \<times> int) option"
  a_declared :: bool
  a_line :: "int option"
  a_pos :: "int option"

definition default_args :: define_args where
  "default_args = \<lparr> a_var_type = asc ''integer'', a_is_array = False, a_array_size = None,
                     a_declared = False, a_line = None, a_pos = None \<rparr>"

text \<open>The \<open>else\<close> branch of \<open>define\<close>: the in-place update of an existing symbol.\<close>

definition redefine :: "symbol \<Rightarrow> define_args \<Rightarrow> symbol" where
  "redefine existing a =
     (let e1 = (if a_is_array a
                then (let e = existing\<lparr> is_array := True \<rparr>;
                          e = (case a_array_size a of Some sz \<Rightarrow> e\<lparr> array_size := sz \<rparr>
                               | None \<Rightarrow> e)
                      in if a_var_type a = asc ''real'' \<and> base_type e = asc ''integer''
                         then e\<lparr> base_type := asc ''real'' \<rparr> else e)
                else if a_var_type a = asc ''real'' \<and> base_type existing = asc ''integer''
                then existing\<lparr> base_type := asc ''real'' \<rparr>
                else existing);
          e2 = (if a_declared a then e1\<lparr> declared := True \<rparr> else e1)
      in case (a_line a, a_pos a) of
           (Some l, Some p) \<Rightarrow>
             (if sym_line e2 = None \<or> l < the (sym_line e2)
              then e2\<lparr> sym_line := Some l, sym_pos := Some p \<rparr> else e2)
         | _ \<Rightarrow> e2)"

definition new_symbol :: "ustring \<Rightarrow> define_args \<Rightarrow> symbol" where
  "new_symbol n a =
     \<lparr> sym_name = n, base_type = a_var_type a, is_array = a_is_array a,
       array_size = (case a_array_size a of Some sz \<Rightarrow> sz | None \<Rightarrow> (0, 100)),
       declared = a_declared a, sym_line = a_line a, sym_pos = a_pos a \<rparr>"

definition define_sym :: "symbol_table \<Rightarrow> ustring \<Rightarrow> define_args \<Rightarrow> symbol_table" where
  "define_sym st n a =
     (case lookup st n of
        None \<Rightarrow> st @ [(n, new_symbol n a)]
      | Some _ \<Rightarrow> map (\<lambda>(k, v). if k = n then (k, redefine v a) else (k, v)) st)"

text \<open>A sequence of \<open>define\<close> calls, each with its name and arguments.\<close>

definition define_all :: "symbol_table \<Rightarrow> (ustring \<times> define_args) list \<Rightarrow> symbol_table" where
  "define_all st cs = foldl (\<lambda>t (n, a). define_sym t n a) st cs"

definition primitive_kinds :: "ustring set" where
  "primitive_kinds = {asc ''integer'', asc ''real'', asc ''boolean'', asc ''string''}"

section \<open>Symbol table: widening\<close>

lemma asc_integer_neq_real: "asc ''integer'' \<noteq> asc ''real''"
  by (simp add: asc_def)

lemma map_of_update_entry:
  "map_of (map (\<lambda>(k, v). if k = n then (k, f v) else (k, v)) st) m =
     (if m = n then map_option f (map_of st m) else map_of st m)"
  by (induction st) auto

lemma lookup_define_sym_same:
  "lookup (define_sym st n a) n =
     Some (case lookup st n of None \<Rightarrow> new_symbol n a | Some e \<Rightarrow> redefine e a)"
  by (auto simp: define_sym_def lookup_def map_of_update_entry map_add_def split: option.splits)

lemma lookup_define_sym_other: "m \<noteq> n \<Longrightarrow> lookup (define_sym st n a) m = lookup st m"
  by (auto simp: define_sym_def lookup_def map_of_update_entry map_add_def split: option.splits)

lemma redefine_base_type:
  "base_type (redefine e a) = base_type e \<or>
   (base_type e = asc ''integer'' \<and> base_type (redefine e a) = asc ''real'')"
  by (auto simp: redefine_def Let_def split: option.splits prod.splits)

lemma redefine_is_array: "is_array e \<Longrightarrow> is_array (redefine e a)"
  by (auto simp: redefine_def Let_def split: option.splits prod.splits)

lemma redefine_widens:
  "a_var_type a = asc ''real'' \<Longrightarrow> base_type e = asc ''integer'' \<Longrightarrow>
   base_type (redefine e a) = asc ''real''"
  by (auto simp: redefine_def Let_def split: option.splits prod.splits)

lemma redefine_keeps_scalar: "\<not> a_is_array a \<Longrightarrow> is_array (redefine e a) = is_array e"
  by (auto simp: redefine_def Let_def split: option.splits prod.splits)

definition widened :: "symbol \<Rightarrow> symbol \<Rightarrow> bool" where
  "widened s s' \<longleftrightarrow>
     (base_type s' = base_type s \<or>
      (base_type s = asc ''integer'' \<and> base_type s' = asc ''real'')) \<and>
     (is_array s \<longrightarrow> is_array s')"

lemma widened_refl: "widened s s"
  by (simp add: widened_def)

lemma widened_trans: "widened s t \<Longrightarrow> widened t u \<Longrightarrow> widened s u"
  using asc_integer_neq_real by (auto simp: widened_def)

lemma widened_redefine: "widened e (redefine e a)"
  using redefine_base_type [of e a] by (auto simp: widened_def redefine_is_array)

lemma define_sym_widened:
  assumes "lookup st n = Some s"
  shows "\<exists>s'. lookup (define_sym st m a) n = Some s' \<and> widened s s'"
proof (cases "m = n")
  case True
  with assms show ?thesis
    by (simp add: lookup_define_sym_same widened_redefine)
next
  case False
  with assms show ?thesis
    by (simp add: lookup_define_sym_other widened_refl)
qed

lemma define_all_widened:
  "lookup st n = Some s \<Longrightarrow> \<exists>s'. lookup (define_all st cs) n = Some s' \<and> widened s s'"
proof (induction cs arbitrary: st s)
  case Nil
  then show ?case by (simp add: define_all_def widened_refl)
next
  case (Cons c cs)
  obtain m a where c: "c = (m, a)" by (cases c)
  from define_sym_widened [OF Cons.prems, of m a]
  obtain s1 where s1: "lookup (define_sym st m a) n = Some s1" and w1: "widened s s1" by blast
  from Cons.IH [OF s1]
  obtain s2 where s2: "lookup (define_all (define_sym st m a) cs) n = Some s2"
    and w2: "widened s1 s2" by blast
  have "define_all st (c # cs) = define_all (define_sym st m a) cs"
    by (simp add: define_all_def c)
  with s2 widened_trans [OF w1 w2] show ?case by auto
qed

text \<open>
  C3. Once a name is in the table, whatever later \<open>define\<close> calls are made (on this or any
  other name), its \<open>base_type\<close> either stays what it was or goes from integer to real
  (so never from real to integer, and never out of the four primitive kinds), and an
  array stays an array. In particular: a first definition as integer followed by one as real
  gives the declared type real.
\<close>

theorem define_only_widens:
  "(lookup st n = Some s \<longrightarrow>
      (\<exists>s'. lookup (define_all st cs) n = Some s' \<and>
         (base_type s' = base_type s \<or>
          (base_type s = asc ''integer'' \<and> base_type s' = asc ''real'')) \<and>
         (base_type s = asc ''real'' \<longrightarrow> base_type s' \<noteq> asc ''integer'') \<and>
         (base_type s \<in> primitive_kinds \<longrightarrow> base_type s' \<in> primitive_kinds) \<and>
         (is_array s \<longrightarrow> is_array s'))) \<and>
   (lookup st0 n = None \<and> a_var_type a1 = asc ''integer'' \<and> \<not> a_is_array a1 \<and>
    a_var_type a2 = asc ''real'' \<and> \<not> a_is_array a2 \<longrightarrow>
      (\<exists>s'. lookup (define_sym (define_sym st0 n a1) n a2) n = Some s' \<and>
            sym_type s' = asc ''real''))"
proof (intro conjI impI)
  assume "lookup st n = Some s"
  from define_all_widened [OF this, of cs]
  obtain s' where s': "lookup (define_all st cs) n = Some s'" and w: "widened s s'" by blast
  from w have "base_type s = asc ''real'' \<longrightarrow> base_type s' \<noteq> asc ''integer''"
    using asc_integer_neq_real by (auto simp: widened_def)
  moreover from w have "base_type s \<in> primitive_kinds \<longrightarrow> base_type s' \<in> primitive_kinds"
    by (auto simp: widened_def primitive_kinds_def)
  ultimately show "\<exists>s'. lookup (define_all st cs) n = Some s' \<and>
         (base_type s' = base_type s \<or>
          (base_type s = asc ''integer'' \<and> base_type s' = asc ''real'')) \<and>
         (base_type s = asc ''real'' \<longrightarrow> base_type s' \<noteq> asc ''integer'') \<and>
         (base_type s \<in> primitive_kinds \<longrightarrow> base_type s' \<in> primitive_kinds) \<and>
         (is_array s \<longrightarrow> is_array s')"
    using s' w by (auto simp: widened_def)
next
  assume h: "lookup st0 n = None \<and> a_var_type a1 = asc ''integer'' \<and> \<not> a_is_array a1 \<and>
    a_var_type a2 = asc ''real'' \<and> \<not> a_is_array a2"
  let ?e = "new_symbol n a1"
  have l: "lookup (define_sym (define_sym st0 n a1) n a2) n = Some (redefine ?e a2)"
    using h by (simp add: lookup_define_sym_same)
  have b: "base_type (redefine ?e a2) = asc ''real''"
    using h by (intro redefine_widens) (simp_all add: new_symbol_def)
  have "\<not> is_array (redefine ?e a2)"
    using h by (simp add: redefine_keeps_scalar new_symbol_def)
  with b have "sym_type (redefine ?e a2) = asc ''real''"
    by (simp add: sym_type_def)
  with l show "\<exists>s'. lookup (define_sym (define_sym st0 n a1) n a2) n = Some s' \<and>
            sym_type s' = asc ''real''"
    by simp
qed

text \<open>
  The theorem at a concrete table: \<open>x\<close> first seen as an integer array, then redefined
  as a real scalar and as a boolean; and \<open>x\<close> defined as integer, then as real, from the
  empty table.
\<close>

theorem define_only_widens_witness:
  "lookup (define_sym [] (asc ''x'') (default_args\<lparr> a_is_array := True \<rparr>)) (asc ''x'') =
     Some (new_symbol (asc ''x'') (default_args\<lparr> a_is_array := True \<rparr>)) \<and>
   base_type (new_symbol (asc ''x'') (default_args\<lparr> a_is_array := True \<rparr>)) \<in> primitive_kinds \<and>
   is_array (new_symbol (asc ''x'') (default_args\<lparr> a_is_array := True \<rparr>)) \<and>
   (\<exists>s'. lookup (define_all (define_sym [] (asc ''x'') (default_args\<lparr> a_is_array := True \<rparr>))
            [(asc ''x'', default_args\<lparr> a_var_type := asc ''real'' \<rparr>),
             (asc ''y'', default_args),
             (asc ''x'', default_args\<lparr> a_var_type := asc ''boolean'' \<rparr>)]) (asc ''x'') = Some s' \<and>
         base_type s' \<in> primitive_kinds \<and> is_array s') \<and>
   lookup [] (asc ''x'') = None \<and>
   (\<exists>s'. lookup (define_sym (define_sym [] (asc ''x'') default_args) (asc ''x'')
                   (default_args\<lparr> a_var_type := asc ''real'' \<rparr>)) (asc ''x'') = Some s' \<and>
         sym_type s' = asc ''real'')"
proof -
  let ?a = "default_args\<lparr> a_is_array := True \<rparr>"
  let ?r = "default_args\<lparr> a_var_type := asc ''real'' \<rparr>"
  let ?st = "define_sym [] (asc ''x'') ?a"
  have h1: "lookup ?st (asc ''x'') = Some (new_symbol (asc ''x'') ?a)"
    by (simp add: define_sym_def lookup_def)
  have h2: "base_type (new_symbol (asc ''x'') ?a) \<in> primitive_kinds"
    by (simp add: new_symbol_def default_args_def primitive_kinds_def)
  have h3: "is_array (new_symbol (asc ''x'') ?a)"
    by (simp add: new_symbol_def)
  have h4: "lookup [] (asc ''x'') = None \<and> a_var_type default_args = asc ''integer'' \<and>
            \<not> a_is_array default_args \<and> a_var_type ?r = asc ''real'' \<and> \<not> a_is_array ?r"
    by (simp add: lookup_def default_args_def)
  from define_only_widens [of ?st "asc ''x''" "new_symbol (asc ''x'') ?a"
      "[(asc ''x'', ?r), (asc ''y'', default_args),
        (asc ''x'', default_args\<lparr> a_var_type := asc ''boolean'' \<rparr>)]"
      "[]" default_args ?r] h1 h2 h3 h4
  show ?thesis by blast
qed


section \<open>Character classes and string methods of Python\<close>

text \<open>
  \<open>str.isspace\<close> (and \<open>\s\<close> of \<open>re\<close> on \<open>str\<close> patterns): the whitespace code points of
  CPython, U+0009..U+000D, U+001C..U+0020, U+0085, U+00A0, U+1680, U+2000..U+200A, U+2028,
  U+2029, U+202F, U+205F and U+3000.
\<close>

definition isspace :: "uchar \<Rightarrow> bool" where
  "isspace c \<longleftrightarrow>
     (9 \<le> c \<and> c \<le> 13) \<or> (28 \<le> c \<and> c \<le> 32) \<or> c = 133 \<or> c = 160 \<or> c = 5760 \<or>
     (8192 \<le> c \<and> c \<le> 8202) \<or> c = 8232 \<or> c = 8233 \<or> c = 8239 \<or> c = 8287 \<or> c = 12288"

text \<open>
  \<open>isalpha\<close>, \<open>isalnum\<close> and \<open>lower\<close> consult the Unicode character database of the Python
  runtime, which is not part of the repository. On ASCII they are fixed here; beyond ASCII
  they are read from a parameter \<open>U\<close>, about which nothing is assumed.
\<close>

record unicode_db =
  u_alpha :: "uchar \<Rightarrow> bool"
  u_numeric :: "uchar \<Rightarrow> bool"
  u_lower :: "ustring \<Rightarrow> ustring"
  u_decimal :: "uchar \<Rightarrow> bool"
  u_digit :: "uchar \<Rightarrow> nat"

definition ascii_alpha :: "uchar \<Rightarrow> bool" where
  "ascii_alpha c \<longleftrightarrow> (65 \<le> c \<and> c \<le> 90) \<or> (97 \<le> c \<and> c \<le> 122)"

definition ascii_digit :: "uchar \<Rightarrow> bool" where
  "ascii_digit c \<longleftrightarrow> 48 \<le> c \<and> c \<le> 57"

definition isalpha :: "unicode_db \<Rightarrow> uchar \<Rightarrow> bool" where
  "isalpha U c = (if c < 128 then ascii_alpha c else u_alpha U c)"

definition isalnum :: "unicode_db \<Rightarrow> uchar \<Rightarrow> bool" where
  "isalnum U c = (if c < 128 then ascii_alpha c \<or> ascii_digit c else u_alpha U c \<or> u_numeric U c)"

text \<open>\<open>\d\<close> of a \<open>str\<close> pattern, and \<open>int(s)\<close> of a string of such digits.\<close>

definition is_decimal :: "unicode_db \<Rightarrow> uchar \<Rightarrow> bool" where
  "is_decimal U c = (if c < 128 then ascii_digit c else u_decimal U c)"

definition int_of_digits :: "unicode_db \<Rightarrow> ustring \<Rightarrow> int" where
  "int_of_digits U ds =
     int (foldl (\<lambda>a c. 10 * a + (if c < 128 then c - 48 else u_digit U c)) 0 ds)"

definition lower :: "unicode_db \<Rightarrow> ustring \<Rightarrow> ustring" where
  "lower U s = (if \<forall>c \<in> set s. c < 128
                then map (\<lambda>c. if 65 \<le> c \<and> c \<le> 90 then c + 32 else c) s
                else u_lower U s)"

text \<open>\<open>str.lstrip()\<close>, \<open>str.rstrip()\<close> and \<open>str.strip()\<close> without argument.\<close>

definition lstrip :: "ustring \<Rightarrow> ustring" where
  "lstrip s = dropWhile isspace s"

definition rstrip :: "ustring \<Rightarrow> ustring" where
  "rstrip s = rev (dropWhile isspace (rev s))"

definition strip :: "ustring \<Rightarrow> ustring" where
  "strip s = rstrip (lstrip s)"

section \<open>lexer.py: PlantUMLLexer\<close>

record token =
  tclass :: nat
  tvalue :: nat
  ttext :: ustring
  tline :: int
  tpos :: int

text \<open>
  The scanner object. The two \<open>ChainHashMap\<close> tables are written by \<open>put\<close> and read only
  by the printing methods, so they are left out; the dicts \<open>identifiers\<close> and \<open>constants\<close>
  are association lists.
\<close>

record lexer =
  source :: ustring
  position :: nat
  buffer :: ustring
  current_char :: uchar
  identifiers :: "(ustring \<times> nat) list"
  constants :: "(ustring \<times> nat) list"
  id_counter :: nat
  const_counter :: nat
  lex_table :: "token list"
  line_num :: int
  char_pos :: int
  errors :: "ustring list"

definition keywords_tbl :: "(ustring \<times> nat) list" where
  "keywords_tbl =
     [(asc ''@startuml'', 1), (asc ''start'', 2), (asc ''stop'', 3), (asc ''if'', 4),
      (asc ''then'', 5), (asc ''else'', 6), (asc ''endif'', 7), (asc ''while'', 8),
      (asc ''is'', 9), (asc ''endwhile'', 10), (asc ''repeat'', 11),
      (asc ''repeatwhile'', 12), (asc ''@enduml'', 13)]"

definition delimiters_ops :: "(ustring \<times> nat) list" where
  "delimiters_ops = [(asc ''('', 1), (asc '')'', 2), (asc '';'', 3), (asc '':'', 4)]"

text \<open>\<open>__init__\<close>: the source is right-stripped and terminated by the sentinel NUL.\<close>

definition init_lexer :: "ustring \<Rightarrow> lexer" where
  "init_lexer source_code =
     (let src = rstrip source_code @ [0]
      in \<lparr> source = src, position = 0, buffer = [], current_char = src ! 0,
           identifiers = [], constants = [], id_counter = 1, const_counter = 1,
           lex_table = [], line_num = 1, char_pos = 0, errors = [] \<rparr>)"

definition advance :: "lexer \<Rightarrow> lexer" where
  "advance s =
     (let s1 = (if current_char s = 10
                then s\<lparr> line_num := line_num s + 1, char_pos := 0 \<rparr>
                else s\<lparr> char_pos := char_pos s + 1 \<rparr>);
          p = position s + 1
      in s1\<lparr> position := p,
             current_char := (if p \<ge> length (source s) then 0 else source s ! p) \<rparr>)"

text \<open>
  The measure of all scanning loops: the characters left, counting one more for a state
  whose current character is not the sentinel although the position is past the end.
\<close>

definition remaining :: "lexer \<Rightarrow> nat" where
  "remaining s = length (source s) - position s +
                 (if position s \<ge> length (source s) \<and> current_char s \<noteq> 0 then 1 else 0)"

lemma remaining_advance: "current_char s \<noteq> 0 \<Longrightarrow> remaining (advance s) < remaining s"
  by (auto simp: remaining_def advance_def Let_def)

lemma remaining_advance_le: "remaining (advance s) \<le> remaining s"
  by (auto simp: remaining_def advance_def Let_def)

function skip_whitespace :: "lexer \<Rightarrow> lexer" where
  "skip_whitespace s =
     (if current_char s \<noteq> 0 \<and> isspace (current_char s) then skip_whitespace (advance s)
      else s)"
  by pat_completeness auto
termination
  by (relation "measure remaining") (auto simp: remaining_advance)

declare skip_whitespace.simps [simp del]

definition make_token :: "nat \<Rightarrow> nat \<Rightarrow> ustring \<Rightarrow> int option \<Rightarrow> int option \<Rightarrow> lexer \<Rightarrow> lexer" where
  "make_token token_class token_value token_text line pos s =
     (let l = (case line of Some l \<Rightarrow> l | None \<Rightarrow> line_num s);
          p = (case pos of Some p \<Rightarrow> p | None \<Rightarrow> char_pos s - int (length token_text) + 1)
      in s\<lparr> lex_table := lex_table s @
               [\<lparr> tclass = token_class, tvalue = token_value, ttext = token_text,
                  tline = l, tpos = p \<rparr>] \<rparr>)"

text \<open>The word "Error" of the messages, in Russian, and the prefix of a located message.\<close>

definition str_error :: ustring where
  "str_error = [1054, 1096, 1080, 1073, 1082, 1072]"

definition located :: "ustring \<Rightarrow> ustring \<Rightarrow> ustring \<Rightarrow> ustring" where
  "located l p message = str_error @ asc '' ('' @ l @ asc '','' @ p @ asc ''): '' @ message"

function skip_to_delimiter :: "lexer \<Rightarrow> lexer" where
  "skip_to_delimiter s =
     (if current_char s \<noteq> 0 \<and> \<not> isspace (current_char s) \<and>
         current_char s \<notin> set (asc ''();:@'')
      then skip_to_delimiter (advance s) else s)"
  by pat_completeness auto
termination
  by (relation "measure remaining") (auto simp: remaining_advance)

declare skip_to_delimiter.simps [simp del]

definition error :: "ustring \<Rightarrow> lexer \<Rightarrow> lexer" where
  "error message s =
     skip_to_delimiter
       (s\<lparr> errors := errors s @ [located (str_int (line_num s)) (str_int (char_pos s)) message] \<rparr>)"

definition is_word_char :: "unicode_db \<Rightarrow> uchar \<Rightarrow> bool" where
  "is_word_char U c \<longleftrightarrow> isalnum U c \<or> c \<in> set (asc ''@_-'')"

lemma not_word_char_nul: "\<not> is_word_char U 0"
  by (simp add: is_word_char_def isalnum_def ascii_alpha_def ascii_digit_def asc_def)

lemma is_word_char_not_nul: "is_word_char U c \<Longrightarrow> c \<noteq> 0"
  using not_word_char_nul [of U] by (cases "c = 0") simp_all

lemma remaining_buffer: "remaining (s\<lparr> buffer := b \<rparr>) = remaining s"
  by (simp add: remaining_def)

text \<open>The loop collecting a word into \<open>buffer\<close>.\<close>

function read_word :: "unicode_db \<Rightarrow> lexer \<Rightarrow> lexer" where
  "read_word U s =
     (if is_word_char U (current_char s)
      then read_word U (advance (s\<lparr> buffer := buffer s @ [current_char s] \<rparr>))
      else s)"
  by pat_completeness auto
termination
proof (relation "measure (\<lambda>(U, s). remaining s)")
  fix U and s :: lexer
  assume "is_word_char U (current_char s)"
  then have "current_char (s\<lparr> buffer := buffer s @ [current_char s] \<rparr>) \<noteq> 0"
    by (simp add: is_word_char_not_nul)
  from remaining_advance [OF this]
  show "((U, advance (s\<lparr> buffer := buffer s @ [current_char s] \<rparr>)), (U, s))
          \<in> measure (\<lambda>(U, s). remaining s)"
    by (simp add: remaining_buffer)
qed simp

declare read_word.simps [simp del]


text \<open>The loop that reads the word \<open>while\<close> of a confirmed compound keyword; it fills a local.\<close>

function skip_word :: "unicode_db \<Rightarrow> lexer \<Rightarrow> lexer" where
  "skip_word U s = (if is_word_char U (current_char s) then skip_word U (advance s) else s)"
  by pat_completeness auto
termination
  by (relation "measure (\<lambda>(U, s). remaining s)")
     (auto simp: remaining_advance is_word_char_not_nul)

declare skip_word.simps [simp del]

text \<open>
  The speculative read of the next word, through \<open>temp_pos\<close> and \<open>temp_char\<close>: the scanner's
  own position is not moved.
\<close>

function peek_word :: "unicode_db \<Rightarrow> ustring \<Rightarrow> nat \<Rightarrow> uchar \<Rightarrow> ustring \<Rightarrow> ustring" where
  "peek_word U src temp_pos temp_char temp_buffer =
     (if is_word_char U temp_char
      then (if temp_pos + 1 < length src
            then peek_word U src (temp_pos + 1) (src ! (temp_pos + 1)) (temp_buffer @ [temp_char])
            else temp_buffer @ [temp_char])
      else temp_buffer)"
  by pat_completeness auto
termination
  by (relation "measure (\<lambda>(U, src, temp_pos, temp_char, temp_buffer). length src - temp_pos)")
     auto

declare peek_word.simps [simp del]

text \<open>The loop reading a payload into \<open>buffer\<close> up to the closing character.\<close>

function read_until :: "uchar \<Rightarrow> lexer \<Rightarrow> lexer" where
  "read_until stop s =
     (if current_char s \<noteq> 0 \<and> current_char s \<noteq> stop
      then read_until stop (advance (s\<lparr> buffer := buffer s @ [current_char s] \<rparr>))
      else s)"
  by pat_completeness auto
termination
proof (relation "measure (\<lambda>(stop, s). remaining s)")
  fix stop and s :: lexer
  assume "current_char s \<noteq> 0 \<and> current_char s \<noteq> stop"
  then have "current_char (s\<lparr> buffer := buffer s @ [current_char s] \<rparr>) \<noteq> 0"
    by simp
  from remaining_advance [OF this]
  show "((stop, advance (s\<lparr> buffer := buffer s @ [current_char s] \<rparr>)), (stop, s))
          \<in> measure (\<lambda>(stop, s). remaining s)"
    by (simp add: remaining_buffer)
qed simp

declare read_until.simps [simp del]

definition keyword :: "string \<Rightarrow> nat" where
  "keyword k = the (map_of keywords_tbl (asc k))"

definition delim :: "string \<Rightarrow> nat" where
  "delim d = the (map_of delimiters_ops (asc d))"

text \<open>The messages of the scanner, in Russian: "Unknown keyword: '", "Expected ';' at the
  end of the action", "Expected ')' at the end of the condition", "Unexpected character: '".\<close>

definition msg_unknown_keyword :: "ustring \<Rightarrow> ustring" where
  "msg_unknown_keyword word =
     [1053, 1077, 1080, 1079, 1074, 1077, 1089, 1090, 1085, 1086, 1077, 32, 1082, 1083, 1102,
      1095, 1077, 1074, 1086, 1077, 32, 1089, 1083, 1086, 1074, 1086, 58, 32, 39] @ word @ [39]"

definition msg_expected_semicolon :: ustring where
  "msg_expected_semicolon =
     [1054, 1078, 1080, 1076, 1072, 1077, 1090, 1089, 1103, 32, 39, 59, 39, 32, 1074, 32, 1082,
      1086, 1085, 1094, 1077, 32, 1076, 1077, 1081, 1089, 1090, 1074, 1080, 1103]"

definition msg_expected_paren :: ustring where
  "msg_expected_paren =
     [1054, 1078, 1080, 1076, 1072, 1077, 1090, 1089, 1103, 32, 39, 41, 39, 32, 1074, 32, 1082,
      1086, 1085, 1094, 1077, 32, 1091, 1089, 1083, 1086, 1074, 1080, 1103]"

definition msg_unexpected_char :: "uchar \<Rightarrow> ustring" where
  "msg_unexpected_char c =
     [1053, 1077, 1086, 1078, 1080, 1076, 1072, 1085, 1085, 1099, 1081, 32, 1089, 1080, 1084,
      1074, 1086, 1083, 58, 32, 39] @ [c] @ [39]"

text \<open>Going back to the position saved before the lookahead, with its character.\<close>

definition restore :: "nat \<Rightarrow> lexer \<Rightarrow> lexer" where
  "restore saved_pos s =
     s\<lparr> position := saved_pos,
        current_char := (if saved_pos < length (source s) then source s ! saved_pos else 0) \<rparr>"

text \<open>
  The branch of \<open>scan\<close> for a word: a keyword, the compound keyword \<open>repeat while\<close>, or an
  unknown word. \<open>confirmed\<close> is the outcome of the lookahead.
\<close>

definition scan_word :: "unicode_db \<Rightarrow> lexer \<Rightarrow> lexer" where
  "scan_word U s =
     (let start_pos = char_pos s;
          start_line = line_num s;
          s1 = read_word U (s\<lparr> buffer := [] \<rparr>);
          potential_word = strip (buffer s1);
          potential_word_lower = lower U potential_word;
          speculative = (potential_word_lower = asc ''repeat'' \<and> isspace (current_char s1));
          saved_pos = position s1;
          s2 = (if speculative then skip_whitespace s1 else s1);
          confirmed = (speculative \<and> isalpha U (current_char s2) \<and>
                       strip (lower U (peek_word U (source s2) (position s2) (current_char s2) []))
                         = asc ''while'')
      in if confirmed
         then (let s3 = restore saved_pos s2;
                   s4 = skip_whitespace s3;
                   s5 = skip_word U s4
               in make_token 1 (keyword ''repeatwhile'') (asc ''repeat while'')
                    (Some start_line) (Some start_pos) s5)
         else (case map_of keywords_tbl potential_word_lower of
                 Some v \<Rightarrow> make_token 1 v potential_word (Some start_line) (Some start_pos) s2
               | None \<Rightarrow> error (msg_unknown_keyword potential_word) s2))"

text \<open>The branches for an action \<open>: ... ;\<close> and for a condition or label \<open>( ... )\<close>.\<close>

definition scan_action :: "lexer \<Rightarrow> lexer" where
  "scan_action s =
     (let s1 = advance (make_token 2 (delim '':'') (asc '':'')
                          (Some (line_num s)) (Some (char_pos s)) s);
          start_content_pos = char_pos s1;
          start_content_line = line_num s1;
          s2 = read_until 59 (s1\<lparr> buffer := [] \<rparr>);
          content = strip (buffer s2);
          s3 = (if content \<noteq> []
                then (case map_of (identifiers s2) content of
                        None \<Rightarrow>
                          make_token 4 (id_counter s2) content
                            (Some start_content_line) (Some start_content_pos)
                            (s2\<lparr> identifiers := identifiers s2 @ [(content, id_counter s2)],
                                 id_counter := id_counter s2 + 1 \<rparr>)
                      | Some id_num \<Rightarrow>
                          make_token 4 id_num content
                            (Some start_content_line) (Some start_content_pos) s2)
                else s2)
      in if current_char s3 = 59
         then advance (make_token 2 (delim '';'') (asc '';'')
                         (Some (line_num s3)) (Some (char_pos s3)) s3)
         else error msg_expected_semicolon s3)"

definition scan_condition :: "lexer \<Rightarrow> lexer" where
  "scan_condition s =
     (let s1 = advance (make_token 2 (delim ''('') (asc ''('')
                          (Some (line_num s)) (Some (char_pos s)) s);
          start_content_pos = char_pos s1;
          start_content_line = line_num s1;
          s2 = read_until 41 (s1\<lparr> buffer := [] \<rparr>);
          content = strip (buffer s2);
          s3 = (if content \<noteq> []
                then (case map_of (constants s2) content of
                        None \<Rightarrow>
                          make_token 5 (const_counter s2) content
                            (Some start_content_line) (Some start_content_pos)
                            (s2\<lparr> constants := constants s2 @ [(content, const_counter s2)],
                                 const_counter := const_counter s2 + 1 \<rparr>)
                      | Some const_num \<Rightarrow>
                          make_token 5 const_num content
                            (Some start_content_line) (Some start_content_pos) s2)
                else s2)
      in if current_char s3 = 41
         then advance (make_token 2 (delim '')'') (asc '')'')
                         (Some (line_num s3)) (Some (char_pos s3)) s3)
         else error msg_expected_paren s3)"

text \<open>One iteration of the loop of \<open>scan\<close>, after the whitespace has been skipped.\<close>

definition scan_step :: "unicode_db \<Rightarrow> lexer \<Rightarrow> lexer" where
  "scan_step U s =
     (if isalpha U (current_char s) \<or> current_char s = 64 then scan_word U s
      else if current_char s = 58 then scan_action s
      else if current_char s = 40 then scan_condition s
      else if current_char s = 59
      then advance (make_token 2 (delim '';'') (asc '';'')
                      (Some (line_num s)) (Some (char_pos s)) s)
      else advance (error (msg_unexpected_char (current_char s)) s))"


subsection \<open>Every loop of the scanner makes progress\<close>

lemma remaining_skip_whitespace: "remaining (skip_whitespace s) \<le> remaining s"
proof (induction s rule: skip_whitespace.induct)
  case (1 s)
  show ?case
  proof (cases "current_char s \<noteq> 0 \<and> isspace (current_char s)")
    case True
    then have "skip_whitespace s = skip_whitespace (advance s)"
      by (subst skip_whitespace.simps) simp
    with 1 True remaining_advance_le [of s] show ?thesis by fastforce
  next
    case False
    then show ?thesis by (subst skip_whitespace.simps) auto
  qed
qed

lemma remaining_skip_to_delimiter: "remaining (skip_to_delimiter s) \<le> remaining s"
proof (induction s rule: skip_to_delimiter.induct)
  case (1 s)
  show ?case
  proof (cases "current_char s \<noteq> 0 \<and> \<not> isspace (current_char s) \<and>
                current_char s \<notin> set (asc ''();:@'')")
    case True
    then have "skip_to_delimiter s = skip_to_delimiter (advance s)"
      by (subst skip_to_delimiter.simps) simp
    with 1 True remaining_advance_le [of s] show ?thesis by fastforce
  next
    case False
    then show ?thesis by (subst skip_to_delimiter.simps) auto
  qed
qed

lemma remaining_skip_word: "remaining (skip_word U s) \<le> remaining s"
proof (induction U s rule: skip_word.induct)
  case (1 U s)
  show ?case
  proof (cases "is_word_char U (current_char s)")
    case True
    then have "skip_word U s = skip_word U (advance s)"
      by (subst skip_word.simps) simp
    with 1 True remaining_advance_le [of s] show ?thesis by fastforce
  next
    case False
    then show ?thesis by (subst skip_word.simps) auto
  qed
qed

lemma remaining_read_word: "remaining (read_word U s) \<le> remaining s"
proof (induction U s rule: read_word.induct)
  case (1 U s)
  let ?s = "s\<lparr> buffer := buffer s @ [current_char s] \<rparr>"
  show ?case
  proof (cases "is_word_char U (current_char s)")
    case True
    then have "read_word U s = read_word U (advance ?s)"
      by (subst read_word.simps) simp
    with 1 True remaining_advance_le [of ?s] show ?thesis
      by (fastforce simp: remaining_buffer)
  next
    case False
    then show ?thesis by (subst read_word.simps) auto
  qed
qed

lemma remaining_read_word_less:
  assumes "is_word_char U (current_char s)"
  shows "remaining (read_word U s) < remaining s"
proof -
  let ?s = "s\<lparr> buffer := buffer s @ [current_char s] \<rparr>"
  from assms have "read_word U s = read_word U (advance ?s)"
    by (subst read_word.simps) simp
  moreover have "remaining (advance ?s) < remaining ?s"
    using assms by (intro remaining_advance) (simp add: is_word_char_not_nul)
  ultimately show ?thesis
    using remaining_read_word [of U "advance ?s"] by (simp add: remaining_buffer)
qed

lemma remaining_read_until: "remaining (read_until stop s) \<le> remaining s"
proof (induction stop s rule: read_until.induct)
  case (1 stop s)
  let ?s = "s\<lparr> buffer := buffer s @ [current_char s] \<rparr>"
  show ?case
  proof (cases "current_char s \<noteq> 0 \<and> current_char s \<noteq> stop")
    case True
    then have "read_until stop s = read_until stop (advance ?s)"
      by (subst read_until.simps) simp
    with 1 True remaining_advance_le [of ?s] show ?thesis
      by (fastforce simp: remaining_buffer)
  next
    case False
    then show ?thesis by (subst read_until.simps) auto
  qed
qed

lemma remaining_make_token: "remaining (make_token c v t l p s) = remaining s"
  by (simp add: make_token_def remaining_def Let_def)

lemma current_char_make_token: "current_char (make_token c v t l p s) = current_char s"
  by (simp add: make_token_def Let_def)

lemma remaining_error: "remaining (error m s) \<le> remaining s"
  using remaining_skip_to_delimiter [of "s\<lparr> errors := errors s @ [located (str_int (line_num s)) (str_int (char_pos s)) m] \<rparr>"]
  by (simp add: error_def remaining_def)

lemma source_advance: "source (advance s) = source s"
  by (simp add: advance_def Let_def)

lemma source_skip_whitespace: "source (skip_whitespace s) = source s"
proof (induction s rule: skip_whitespace.induct)
  case (1 s)
  then show ?case
    by (subst skip_whitespace.simps) (auto simp: source_advance)
qed

lemma position_skip_whitespace: "position s \<le> position (skip_whitespace s)"
proof (induction s rule: skip_whitespace.induct)
  case (1 s)
  show ?case
  proof (cases "current_char s \<noteq> 0 \<and> isspace (current_char s)")
    case True
    then have "skip_whitespace s = skip_whitespace (advance s)"
      by (subst skip_whitespace.simps) simp
    moreover have "position s \<le> position (advance s)"
      by (simp add: advance_def Let_def)
    ultimately show ?thesis using 1 True by fastforce
  next
    case False
    then show ?thesis by (subst skip_whitespace.simps) auto
  qed
qed

text \<open>Restoring the saved position, as the confirmed lookahead does, loses no progress.\<close>

lemma remaining_restore: "remaining (restore p s) = length (source s) - p"
  by (simp add: remaining_def restore_def)

lemma remaining_ge: "length (source s) - position s \<le> remaining s"
  by (simp add: remaining_def)

lemma scan_word_unfold:
  fixes U :: unicode_db and s :: lexer
  defines "s1 \<equiv> read_word U (s\<lparr> buffer := [] \<rparr>)"
  defines "speculative \<equiv> lower U (strip (buffer s1)) = asc ''repeat'' \<and> isspace (current_char s1)"
  defines "s2 \<equiv> (if speculative then skip_whitespace s1 else s1)"
  defines "confirmed \<equiv> speculative \<and> isalpha U (current_char s2) \<and>
              strip (lower U (peek_word U (source s2) (position s2) (current_char s2) []))
                = asc ''while''"
  shows "scan_word U s =
     (if confirmed
      then make_token 1 (keyword ''repeatwhile'') (asc ''repeat while'')
             (Some (line_num s)) (Some (char_pos s))
             (skip_word U (skip_whitespace (restore (position s1) s2)))
      else (case map_of keywords_tbl (lower U (strip (buffer s1))) of
              Some v \<Rightarrow> make_token 1 v (strip (buffer s1)) (Some (line_num s)) (Some (char_pos s)) s2
            | None \<Rightarrow> error (msg_unknown_keyword (strip (buffer s1))) s2))"
  unfolding scan_word_def Let_def confirmed_def s2_def speculative_def s1_def
  by (rule refl)

lemma remaining_scan_word:
  assumes "isalpha U (current_char s) \<or> current_char s = 64"
  shows "remaining (scan_word U s) < remaining s"
proof -
  let ?s0 = "s\<lparr> buffer := [] \<rparr>"
  define s1 where "s1 = read_word U ?s0"
  define speculative where
    "speculative \<longleftrightarrow> lower U (strip (buffer s1)) = asc ''repeat'' \<and> isspace (current_char s1)"
  define s2 where "s2 = (if speculative then skip_whitespace s1 else s1)"
  have wc: "is_word_char U (current_char ?s0)"
    using assms by (auto simp: is_word_char_def isalpha_def isalnum_def asc_def)
  have r1: "remaining s1 < remaining s"
    using remaining_read_word_less [OF wc] by (simp add: remaining_buffer s1_def)
  have r2: "remaining s2 \<le> remaining s1"
    by (simp add: s2_def remaining_skip_whitespace)
  have "source s2 = source s1"
    by (simp add: s2_def source_skip_whitespace)
  then have "remaining (restore (position s1) s2) \<le> remaining s1"
    using remaining_ge [of s1] by (simp add: remaining_restore)
  then have r5: "remaining (skip_word U (skip_whitespace (restore (position s1) s2))) \<le> remaining s1"
    using remaining_skip_word [of U "skip_whitespace (restore (position s1) s2)"]
      remaining_skip_whitespace [of "restore (position s1) s2"]
    by linarith
  have r6: "remaining (error m s2) \<le> remaining s1" for m
    using remaining_error [of m s2] r2 by linarith
  show ?thesis
    unfolding scan_word_unfold s1_def [symmetric] speculative_def [symmetric] s2_def [symmetric]
    using r1 r2 r5 r6
    by (simp add: remaining_make_token split: option.split) (meson le_less_trans)
qed

lemma remaining_scan_payload:
  assumes "current_char s \<noteq> 0"
  shows "remaining (scan_action s) < remaining s" and "remaining (scan_condition s) < remaining s"
proof -
  have adv: "remaining (advance (make_token c v t l p s)) < remaining s" for c v t l p
    using remaining_advance [of "make_token c v t l p s"] assms
    by (simp add: remaining_make_token current_char_make_token)
  have rd: "remaining (read_until stop (advance (make_token c v t l p s)\<lparr> buffer := [] \<rparr>))
              < remaining s" for stop c v t l p
    using remaining_read_until [of stop "advance (make_token c v t l p s)\<lparr> buffer := [] \<rparr>"]
      adv [of c v t l p]
    by (simp add: remaining_buffer)
  have upd1: "remaining (x\<lparr> identifiers := i, id_counter := n \<rparr>) = remaining x" for x i n
    by (simp add: remaining_def)
  have upd2: "remaining (x\<lparr> constants := i, const_counter := n \<rparr>) = remaining x" for x i n
    by (simp add: remaining_def)
  have fin: "remaining x < remaining s \<Longrightarrow>
             remaining (if current_char x = k
                        then advance (make_token c v t l p x) else error m x) < remaining s"
    for x k c v t l p m
    using remaining_advance_le [of "make_token c v t l p x"] remaining_error [of m x]
    by (auto simp: remaining_make_token)
  show "remaining (scan_action s) < remaining s"
    unfolding scan_action_def Let_def
    by (rule fin) (simp add: remaining_make_token upd1 rd split: option.split)
  show "remaining (scan_condition s) < remaining s"
    unfolding scan_condition_def Let_def
    by (rule fin) (simp add: remaining_make_token upd2 rd split: option.split)
qed

lemma remaining_error_advance:
  assumes "current_char s \<noteq> 0"
  shows "remaining (advance (error m s)) < remaining s"
proof -
  let ?s = "s\<lparr> errors := errors s @ [located (str_int (line_num s)) (str_int (char_pos s)) m] \<rparr>"
  have rs: "remaining ?s = remaining s"
    by (simp add: remaining_def)
  show ?thesis
  proof (cases "\<not> isspace (current_char s) \<and> current_char s \<notin> set (asc ''();:@'')")
    case True
    with assms have "skip_to_delimiter ?s = skip_to_delimiter (advance ?s)"
      by (subst skip_to_delimiter.simps) simp
    moreover have "remaining (advance ?s) < remaining s"
      using remaining_advance [of ?s] assms rs by simp
    ultimately show ?thesis
      using remaining_skip_to_delimiter [of "advance ?s"]
        remaining_advance_le [of "skip_to_delimiter (advance ?s)"]
      by (simp add: error_def)
  next
    case False
    then have "skip_to_delimiter ?s = ?s"
      by (subst skip_to_delimiter.simps) auto
    then show ?thesis
      using remaining_advance [of ?s] assms rs by (simp add: error_def)
  qed
qed

lemma remaining_scan_step:
  assumes "current_char s \<noteq> 0"
  shows "remaining (scan_step U s) < remaining s"
  using assms remaining_scan_word [of U s] remaining_scan_payload [of s]
    remaining_error_advance [of s]
    remaining_advance [of "make_token 2 (delim '';'') (asc '';'') (Some (line_num s)) (Some (char_pos s)) s"]
  by (simp add: scan_step_def remaining_make_token current_char_make_token)

section \<open>The loop of \<open>scan\<close>\<close>

function scan_loop :: "unicode_db \<Rightarrow> lexer \<Rightarrow> lexer" where
  "scan_loop U s =
     (if current_char s \<noteq> 0
      then (let s1 = skip_whitespace s
            in if current_char s1 = 0 then s1 else scan_loop U (scan_step U s1))
      else s)"
  by pat_completeness auto
termination
proof (relation "measure (\<lambda>(U, s). remaining s)")
  fix U and s s1 :: lexer
  assume "s1 = skip_whitespace s" "current_char s1 \<noteq> 0"
  then show "((U, scan_step U s1), (U, s)) \<in> measure (\<lambda>(U, s). remaining s)"
    using remaining_scan_step [of s1 U] remaining_skip_whitespace [of s] by simp
qed simp

declare scan_loop.simps [simp del]

text \<open>\<open>scan\<close>: the final scanner and the flag it returns.\<close>

definition scan :: "unicode_db \<Rightarrow> ustring \<Rightarrow> lexer" where
  "scan U source_code = scan_loop U (init_lexer source_code)"

definition scan_ok :: "lexer \<Rightarrow> bool" where
  "scan_ok s \<longleftrightarrow> length (errors s) = 0"


section \<open>The scanner in terms of the unread input\<close>

text \<open>
  \<open>rest\<close> is the unread part of the source. While the scanner is \<open>sync\<close> (its current
  character is the one at its position, and the source ends with the sentinel), each loop
  consumes a prefix of \<open>rest\<close> given by \<open>takeWhile\<close>; \<open>move\<close> is what \<open>advance\<close> does to the
  line and column over a consumed string, and \<open>jump\<close> is the scanner after consuming it.
\<close>

definition rest :: "lexer \<Rightarrow> ustring" where
  "rest s = drop (position s) (source s)"

definition sync :: "lexer \<Rightarrow> bool" where
  "sync s \<longleftrightarrow> position s < length (source s) \<and> current_char s = source s ! position s \<and>
              last (source s) = 0"

fun move :: "ustring \<Rightarrow> int \<times> int \<Rightarrow> int \<times> int" where
  "move [] lc = lc"
| "move (c # cs) (l, col) = move cs (if c = 10 then (l + 1, 0) else (l, col + 1))"

definition jump :: "ustring \<Rightarrow> lexer \<Rightarrow> lexer" where
  "jump w s =
     s\<lparr> position := position s + length w,
        current_char := source s ! (position s + length w),
        line_num := fst (move w (line_num s, char_pos s)),
        char_pos := snd (move w (line_num s, char_pos s)) \<rparr>"

lemma move_append: "move (u @ v) lc = move v (move u lc)"
  by (induction u lc rule: move.induct) auto

lemma rest_nonempty: "sync s \<Longrightarrow> rest s = current_char s # drop (Suc (position s)) (source s)"
  by (simp add: sync_def rest_def Cons_nth_drop_Suc)

lemma nul_in_rest: "sync s \<Longrightarrow> 0 \<in> set (rest s)"
proof -
  assume s: "sync s"
  then have "source s \<noteq> []" by (auto simp: sync_def)
  with s have "last (rest s) = 0"
    by (simp add: rest_def sync_def)
  moreover from s have "rest s \<noteq> []" by (simp add: rest_def sync_def)
  ultimately show ?thesis by (metis last_in_set)
qed

lemma takeWhile_rest_short:
  assumes "sync s" "\<not> P 0"
  shows "length (takeWhile P (rest s)) < length (rest s)"
proof -
  from nul_in_rest [OF assms(1)] assms(2)
  have "\<exists>x \<in> set (rest s). \<not> P x" by blast
  then have "takeWhile P (rest s) \<noteq> rest s"
    by (metis set_takeWhileD)
  moreover have "length (takeWhile P (rest s)) \<le> length (rest s)"
    by (rule length_takeWhile_le)
  ultimately show ?thesis
    by (metis le_neq_implies_less takeWhile_eq_take take_all_iff order_refl)
qed

lemma sync_jump: "sync s \<Longrightarrow> length w < length (rest s) \<Longrightarrow> sync (jump w s)"
  by (auto simp: sync_def jump_def rest_def)

lemma rest_jump: "rest (jump w s) = drop (length w) (rest s)"
  by (simp add: rest_def jump_def add.commute)

lemma jump_Nil: "jump [] s = s\<lparr> current_char := source s ! position s \<rparr>"
  by (simp add: jump_def)

lemma jump_Nil_sync: "sync s \<Longrightarrow> jump [] s = s"
  by (simp add: jump_Nil sync_def)

lemma jump_jump: "jump v (jump u s) = jump (u @ v) s"
  by (simp add: jump_def move_append add.assoc)

lemma advance_jump:
  assumes "sync s" "current_char s \<noteq> 0"
  shows "advance s = jump [current_char s] s"
proof -
  from assms have ne: "source s \<noteq> []"
    by (auto simp: sync_def)
  have "position s \<noteq> length (source s) - 1"
  proof
    assume "position s = length (source s) - 1"
    with assms(1) ne have "current_char s = last (source s)"
      by (simp add: sync_def last_conv_nth)
    with assms show False by (simp add: sync_def)
  qed
  with assms have "Suc (position s) < length (source s)"
    by (auto simp: sync_def)
  then show ?thesis
    by (simp add: advance_def jump_def Let_def)
qed

text \<open>
  The closed form of a loop \<open>while P(current_char): [buffer += current_char;] advance()\<close>.
\<close>

definition keep_char :: "bool \<Rightarrow> lexer \<Rightarrow> lexer" where
  "keep_char keep s = (if keep then s\<lparr> buffer := buffer s @ [current_char s] \<rparr> else s)"

definition consumed :: "bool \<Rightarrow> ustring \<Rightarrow> lexer \<Rightarrow> lexer" where
  "consumed keep w s = (if keep then (jump w s)\<lparr> buffer := buffer s @ w \<rparr> else jump w s)"

lemma consumed_step:
  "consumed keep w (jump [current_char s] (keep_char keep s)) = consumed keep (current_char s # w) s"
  by (simp add: consumed_def keep_char_def jump_def)

lemma loop_closed_form:
  fixes f :: "lexer \<Rightarrow> lexer"
  assumes unf: "\<And>s. f s = (if P (current_char s) then f (advance (keep_char keep s)) else s)"
    and nul: "\<not> P 0"
  shows "sync s \<Longrightarrow> f s = consumed keep (takeWhile P (rest s)) s"
proof (induction "length (rest s)" arbitrary: s rule: less_induct)
  case less
  note s = \<open>sync s\<close>
  show ?case
  proof (cases "P (current_char s)")
    case False
    with s have "takeWhile P (rest s) = []"
      by (simp add: rest_nonempty)
    moreover from False have "f s = s" by (subst unf) simp
    ultimately show ?thesis
      using s by (simp add: consumed_def jump_Nil_sync)
  next
    case True
    let ?k = "keep_char keep s"
    have k: "sync ?k" "current_char ?k = current_char s" "rest ?k = rest s"
      using s by (simp_all add: keep_char_def sync_def rest_def)
    from True nul have nz: "current_char s \<noteq> 0" by metis
    have adv: "advance ?k = jump [current_char s] ?k"
      using advance_jump [of ?k] k nz by simp
    have len: "length [current_char s] < length (rest ?k)"
      using s nul_in_rest [OF s] nz by (cases "drop (Suc (position s)) (source s)")
        (auto simp: k rest_nonempty)
    have s': "sync (jump [current_char s] ?k)"
      by (rule sync_jump [OF k(1) len])
    have r': "rest (jump [current_char s] ?k) = drop (Suc (position s)) (source s)"
      using s by (simp add: rest_jump k rest_nonempty)
    have "length (rest (jump [current_char s] ?k)) < length (rest s)"
      using s by (simp add: r' rest_nonempty)
    from less.hyps [OF this s']
    have "f (jump [current_char s] ?k) =
          consumed keep (takeWhile P (drop (Suc (position s)) (source s))) (jump [current_char s] ?k)"
      by (simp add: r')
    moreover from True have "f s = f (advance ?k)" by (subst unf) simp
    moreover from True s have "takeWhile P (rest s) =
        current_char s # takeWhile P (drop (Suc (position s)) (source s))"
      by (simp add: rest_nonempty)
    ultimately show ?thesis
      by (simp add: adv consumed_step)
  qed
qed

lemma skip_whitespace_closed:
  "sync s \<Longrightarrow> skip_whitespace s = jump (takeWhile isspace (rest s)) s"
proof -
  assume s: "sync s"
  have eq: "(\<lambda>c. c \<noteq> 0 \<and> isspace c) = isspace"
    by (rule ext) (auto simp: isspace_def)
  have "skip_whitespace s = consumed False (takeWhile (\<lambda>c. c \<noteq> 0 \<and> isspace c) (rest s)) s"
    by (rule loop_closed_form [OF _ _ s])
       (subst skip_whitespace.simps, simp_all add: keep_char_def)
  then show ?thesis unfolding eq consumed_def by simp
qed

lemma skip_to_delimiter_closed:
  "sync s \<Longrightarrow> skip_to_delimiter s =
     jump (takeWhile (\<lambda>c. c \<noteq> 0 \<and> \<not> isspace c \<and> c \<notin> set (asc ''();:@'')) (rest s)) s"
proof -
  assume s: "sync s"
  have "skip_to_delimiter s = consumed False
          (takeWhile (\<lambda>c. c \<noteq> 0 \<and> \<not> isspace c \<and> c \<notin> set (asc ''();:@'')) (rest s)) s"
    by (rule loop_closed_form [OF _ _ s])
       (subst skip_to_delimiter.simps, simp_all add: keep_char_def)
  then show ?thesis by (simp add: consumed_def)
qed

lemma skip_word_closed:
  "sync s \<Longrightarrow> skip_word U s = jump (takeWhile (is_word_char U) (rest s)) s"
proof -
  assume s: "sync s"
  have "skip_word U s = consumed False (takeWhile (is_word_char U) (rest s)) s"
    by (rule loop_closed_form [OF _ _ s])
       (subst skip_word.simps, simp_all add: keep_char_def not_word_char_nul)
  then show ?thesis by (simp add: consumed_def)
qed

lemma read_word_closed:
  "sync s \<Longrightarrow> read_word U s =
     (jump (takeWhile (is_word_char U) (rest s)) s)
       \<lparr> buffer := buffer s @ takeWhile (is_word_char U) (rest s) \<rparr>"
proof -
  assume s: "sync s"
  have "read_word U s = consumed True (takeWhile (is_word_char U) (rest s)) s"
    by (rule loop_closed_form [OF _ _ s])
       (subst read_word.simps, simp_all add: keep_char_def not_word_char_nul)
  then show ?thesis by (simp add: consumed_def)
qed

lemma read_until_closed:
  "sync s \<Longrightarrow> read_until stop s =
     (jump (takeWhile (\<lambda>c. c \<noteq> 0 \<and> c \<noteq> stop) (rest s)) s)
       \<lparr> buffer := buffer s @ takeWhile (\<lambda>c. c \<noteq> 0 \<and> c \<noteq> stop) (rest s) \<rparr>"
proof -
  assume s: "sync s"
  have "read_until stop s = consumed True (takeWhile (\<lambda>c. c \<noteq> 0 \<and> c \<noteq> stop) (rest s)) s"
    by (rule loop_closed_form [OF _ _ s])
       (subst read_until.simps, simp_all add: keep_char_def)
  then show ?thesis by (simp add: consumed_def)
qed

lemma advance_eval:
  "position s + 1 = p \<Longrightarrow>
   advance s = (if current_char s = 10 then s\<lparr> line_num := line_num s + 1, char_pos := 0 \<rparr>
                else s\<lparr> char_pos := char_pos s + 1 \<rparr>)
               \<lparr> position := p, current_char := (if p \<ge> length (source s) then 0 else source s ! p) \<rparr>"
  by (auto simp: advance_def Let_def)

definition scan_word_spec where
  "scan_word_spec U s s1 pw pwl =
     (let s2 = skip_whitespace s1 in
      if isalpha U (current_char s2) \<and>
         strip (lower U (peek_word U (source s2) (position s2) (current_char s2) [])) = asc ''while''
      then make_token 1 (keyword ''repeatwhile'') (asc ''repeat while'')
             (Some (line_num s)) (Some (char_pos s))
             (skip_word U (skip_whitespace (restore (position s1) s2)))
      else (case map_of keywords_tbl pwl of
              Some v \<Rightarrow> make_token 1 v pw (Some (line_num s)) (Some (char_pos s)) s2
            | None \<Rightarrow> error (msg_unknown_keyword pw) s2))"

lemma scan_word_spec_eval:
  "skip_whitespace s1 = s2 \<Longrightarrow>
   scan_word_spec U s s1 pw pwl =
     (if isalpha U (current_char s2) \<and>
         strip (lower U (peek_word U (source s2) (position s2) (current_char s2) [])) = asc ''while''
      then make_token 1 (keyword ''repeatwhile'') (asc ''repeat while'')
             (Some (line_num s)) (Some (char_pos s))
             (skip_word U (skip_whitespace (restore (position s1) s2)))
      else (case map_of keywords_tbl pwl of
              Some v \<Rightarrow> make_token 1 v pw (Some (line_num s)) (Some (char_pos s)) s2
            | None \<Rightarrow> error (msg_unknown_keyword pw) s2))"
  by (auto simp: scan_word_spec_def)

lemma scan_word_eval:
  "read_word U (s\<lparr> buffer := [] \<rparr>) = s1 \<Longrightarrow>
   strip (buffer s1) = pw \<Longrightarrow>
   lower U pw = pwl \<Longrightarrow>
   scan_word U s =
     (if pwl = asc ''repeat'' \<and> isspace (current_char s1)
      then scan_word_spec U s s1 pw pwl
      else (case map_of keywords_tbl pwl of
              Some v \<Rightarrow> make_token 1 v pw (Some (line_num s)) (Some (char_pos s)) s1
            | None \<Rightarrow> error (msg_unknown_keyword pw) s1))"
  by (auto simp: scan_word_def scan_word_spec_def Let_def)


lemma scan_loop_eval:
  "(if current_char s = 0 then s else skip_whitespace s) = s1 \<Longrightarrow>
   scan_loop U s = (if current_char s1 = 0 then s1 else scan_loop U (scan_step U s1))"
  by (subst scan_loop.simps) (auto simp: Let_def)

lemma scan_action_eval:
  "advance (make_token 2 (delim '':'') (asc '':'') (Some (line_num s)) (Some (char_pos s)) s) = s1 \<Longrightarrow>
   read_until 59 (s1\<lparr> buffer := [] \<rparr>) = s2 \<Longrightarrow>
   strip (buffer s2) = content \<Longrightarrow>
   (if content \<noteq> []
    then (case map_of (identifiers s2) content of
            None \<Rightarrow> make_token 4 (id_counter s2) content (Some (line_num s1)) (Some (char_pos s1))
                      (s2\<lparr> identifiers := identifiers s2 @ [(content, id_counter s2)],
                           id_counter := id_counter s2 + 1 \<rparr>)
          | Some id_num \<Rightarrow> make_token 4 id_num content (Some (line_num s1)) (Some (char_pos s1)) s2)
    else s2) = s3 \<Longrightarrow>
   scan_action s =
     (if current_char s3 = 59
      then advance (make_token 2 (delim '';'') (asc '';'') (Some (line_num s3)) (Some (char_pos s3)) s3)
      else error msg_expected_semicolon s3)"
  by (auto simp: scan_action_def Let_def)

lemma scan_condition_eval:
  "advance (make_token 2 (delim ''('') (asc ''('') (Some (line_num s)) (Some (char_pos s)) s) = s1 \<Longrightarrow>
   read_until 41 (s1\<lparr> buffer := [] \<rparr>) = s2 \<Longrightarrow>
   strip (buffer s2) = content \<Longrightarrow>
   (if content \<noteq> []
    then (case map_of (constants s2) content of
            None \<Rightarrow> make_token 5 (const_counter s2) content (Some (line_num s1)) (Some (char_pos s1))
                      (s2\<lparr> constants := constants s2 @ [(content, const_counter s2)],
                           const_counter := const_counter s2 + 1 \<rparr>)
          | Some const_num \<Rightarrow> make_token 5 const_num content (Some (line_num s1)) (Some (char_pos s1)) s2)
    else s2) = s3 \<Longrightarrow>
   scan_condition s =
     (if current_char s3 = 41
      then advance (make_token 2 (delim '')'') (asc '')'') (Some (line_num s3)) (Some (char_pos s3)) s3)
      else error msg_expected_paren s3)"
  by (auto simp: scan_condition_def Let_def)

lemmas lex_eval = scan_def init_lexer_def scan_loop_eval skip_whitespace.simps read_word.simps
  skip_word.simps peek_word.simps read_until.simps skip_to_delimiter.simps scan_step_def
  scan_word_eval scan_word_spec_eval scan_action_eval scan_condition_eval make_token_def error_def advance_eval
  restore_def keyword_def delim_def keywords_tbl_def delimiters_ops_def lower_def strip_def
  lstrip_def rstrip_def isspace_def isalpha_def isalnum_def ascii_alpha_def ascii_digit_def
  is_word_char_def asc_def


section \<open>parser.py: Node and PlantUMLSyntaxAnalyzer\<close>

datatype node =
  Node (ntype: ustring) (nvalue: "ustring option") (children: "node list") (nline: int) (npos: int)

definition add_child :: "node \<Rightarrow> node \<Rightarrow> node" where
  "add_child nd child = Node (ntype nd) (nvalue nd) (children nd @ [child]) (nline nd) (npos nd)"

text \<open>\<open>Node(t, line=l, pos=p)\<close> and \<open>Node(t, v, line=l, pos=p)\<close>; a node made from a token.\<close>

definition mk_node :: "string \<Rightarrow> int \<Rightarrow> int \<Rightarrow> node" where
  "mk_node t l p = Node (asc t) None [] l p"

definition token_node :: "string \<Rightarrow> token \<Rightarrow> node" where
  "token_node t tok = Node (asc t) (Some (ttext tok)) [] (tline tok) (tpos tok)"

text \<open>A node \<open>Node(t)\<close> (line and position 0) holding the statements of a body.\<close>

definition body_node :: "string \<Rightarrow> node list \<Rightarrow> node" where
  "body_node t stmts = Node (asc t) None stmts 0 0"

subsection \<open>Messages\<close>

text \<open>Russian for: Expected '@startuml'\<close>

definition msg_expect_startuml :: ustring where
  "msg_expect_startuml =
     [1054, 1078, 1080, 1076, 1072, 1077, 1090, 1089, 1103, 32, 39, 64, 115, 116, 97, 114, 116,
      117, 109, 108, 39]"

text \<open>Expected 'start'\<close>

definition msg_expect_start :: ustring where
  "msg_expect_start =
     [1054, 1078, 1080, 1076, 1072, 1077, 1090, 1089, 1103, 32, 39, 115, 116, 97, 114, 116, 39]"

text \<open>Expected 'stop'\<close>

definition msg_expect_stop :: ustring where
  "msg_expect_stop =
     [1054, 1078, 1080, 1076, 1072, 1077, 1090, 1089, 1103, 32, 39, 115, 116, 111, 112, 39]"

text \<open>Expected '@enduml'\<close>

definition msg_expect_enduml :: ustring where
  "msg_expect_enduml =
     [1054, 1078, 1080, 1076, 1072, 1077, 1090, 1089, 1103, 32, 39, 64, 101, 110, 100, 117,
      109, 108, 39]"

text \<open>Expected ':' to begin an action\<close>

definition msg_expect_colon :: ustring where
  "msg_expect_colon =
     [1054, 1078, 1080, 1076, 1072, 1077, 1090, 1089, 1103, 32, 39, 58, 39, 32, 1076, 1083,
      1103, 32, 1085, 1072, 1095, 1072, 1083, 1072, 32, 1076, 1077, 1081, 1089, 1090, 1074,
      1080, 1103]"

text \<open>Expected the content of the action after ':'\<close>

definition msg_expect_action_content :: ustring where
  "msg_expect_action_content =
     [1054, 1078, 1080, 1076, 1072, 1077, 1090, 1089, 1103, 32, 1089, 1086, 1076, 1077, 1088,
      1078, 1080, 1084, 1086, 1077, 32, 1076, 1077, 1081, 1089, 1090, 1074, 1080, 1103, 32,
      1087, 1086, 1089, 1083, 1077, 32, 39, 58, 39]"

text \<open>Expected ';' after the content of the action\<close>

definition msg_expect_semicolon :: ustring where
  "msg_expect_semicolon =
     [1054, 1078, 1080, 1076, 1072, 1077, 1090, 1089, 1103, 32, 39, 59, 39, 32, 1087, 1086,
      1089, 1083, 1077, 32, 1089, 1086, 1076, 1077, 1088, 1078, 1080, 1084, 1086, 1075, 1086,
      32, 1076, 1077, 1081, 1089, 1090, 1074, 1080, 1103]"

text \<open>Expected the keyword 'if'\<close>

definition msg_expect_if :: ustring where
  "msg_expect_if =
     [1054, 1078, 1080, 1076, 1072, 1077, 1090, 1089, 1103, 32, 1082, 1083, 1102, 1095, 1077,
      1074, 1086, 1077, 32, 1089, 1083, 1086, 1074, 1086, 32, 39, 105, 102, 39]"

text \<open>Expected '(' after 'if'\<close>

definition msg_expect_paren_if :: ustring where
  "msg_expect_paren_if =
     [1054, 1078, 1080, 1076, 1072, 1077, 1090, 1089, 1103, 32, 39, 40, 39, 32, 1087, 1086,
      1089, 1083, 1077, 32, 39, 105, 102, 39]"

text \<open>Expected a condition in parentheses after 'if'\<close>

definition msg_expect_cond_if :: ustring where
  "msg_expect_cond_if =
     [1054, 1078, 1080, 1076, 1072, 1077, 1090, 1089, 1103, 32, 1091, 1089, 1083, 1086, 1074,
      1080, 1077, 32, 1074, 32, 1089, 1082, 1086, 1073, 1082, 1072, 1093, 32, 1087, 1086, 1089,
      1083, 1077, 32, 39, 105, 102, 39]"

text \<open>Expected ')' after the condition\<close>

definition msg_expect_close_cond :: ustring where
  "msg_expect_close_cond =
     [1054, 1078, 1080, 1076, 1072, 1077, 1090, 1089, 1103, 32, 39, 41, 39, 32, 1087, 1086,
      1089, 1083, 1077, 32, 1091, 1089, 1083, 1086, 1074, 1080, 1103]"

text \<open>Expected the keyword 'then'\<close>

definition msg_expect_then :: ustring where
  "msg_expect_then =
     [1054, 1078, 1080, 1076, 1072, 1077, 1090, 1089, 1103, 32, 1082, 1083, 1102, 1095, 1077,
      1074, 1086, 1077, 32, 1089, 1083, 1086, 1074, 1086, 32, 39, 116, 104, 101, 110, 39]"

text \<open>Expected '(' before the branch label of 'then'\<close>

definition msg_expect_paren_then :: ustring where
  "msg_expect_paren_then =
     [1054, 1078, 1080, 1076, 1072, 1077, 1090, 1089, 1103, 32, 39, 40, 39, 32, 1087, 1077,
      1088, 1077, 1076, 32, 1103, 1088, 1083, 1099, 1082, 1086, 1084, 32, 1074, 1077, 1090,
      1074, 1083, 1077, 1085, 1080, 1103, 32, 39, 116, 104, 101, 110, 39]"

text \<open>Expected a branch label after '('\<close>

definition msg_expect_label :: ustring where
  "msg_expect_label =
     [1054, 1078, 1080, 1076, 1072, 1077, 1090, 1089, 1103, 32, 1103, 1088, 1083, 1099, 1082,
      32, 1074, 1077, 1090, 1074, 1083, 1077, 1085, 1080, 1103, 32, 1087, 1086, 1089, 1083,
      1077, 32, 39, 40, 39]"

text \<open>Expected ')' after the branch label of 'then'\<close>

definition msg_expect_close_then :: ustring where
  "msg_expect_close_then =
     [1054, 1078, 1080, 1076, 1072, 1077, 1090, 1089, 1103, 32, 39, 41, 39, 32, 1087, 1086,
      1089, 1083, 1077, 32, 1103, 1088, 1083, 1099, 1082, 1072, 32, 1074, 1077, 1090, 1074,
      1083, 1077, 1085, 1080, 1103, 32, 39, 116, 104, 101, 110, 39]"

text \<open>Expected '(' before the branch label of 'else'\<close>

definition msg_expect_paren_else :: ustring where
  "msg_expect_paren_else =
     [1054, 1078, 1080, 1076, 1072, 1077, 1090, 1089, 1103, 32, 39, 40, 39, 32, 1087, 1077,
      1088, 1077, 1076, 32, 1103, 1088, 1083, 1099, 1082, 1086, 1084, 32, 1074, 1077, 1090,
      1074, 1083, 1077, 1085, 1080, 1103, 32, 39, 101, 108, 115, 101, 39]"

text \<open>Expected the keyword 'endif'\<close>

definition msg_expect_endif :: ustring where
  "msg_expect_endif =
     [1054, 1078, 1080, 1076, 1072, 1077, 1090, 1089, 1103, 32, 1082, 1083, 1102, 1095, 1077,
      1074, 1086, 1077, 32, 1089, 1083, 1086, 1074, 1086, 32, 39, 101, 110, 100, 105, 102, 39]"

text \<open>Expected '(' before the branch label\<close>

definition msg_expect_paren_label :: ustring where
  "msg_expect_paren_label =
     [1054, 1078, 1080, 1076, 1072, 1077, 1090, 1089, 1103, 32, 39, 40, 39, 32, 1087, 1077,
      1088, 1077, 1076, 32, 1103, 1088, 1083, 1099, 1082, 1086, 1084, 32, 1074, 1077, 1090,
      1074, 1083, 1077, 1085, 1080, 1103]"

text \<open>Expected ')' after the branch label\<close>

definition msg_expect_close_label :: ustring where
  "msg_expect_close_label =
     [1054, 1078, 1080, 1076, 1072, 1077, 1090, 1089, 1103, 32, 39, 41, 39, 32, 1087, 1086,
      1089, 1083, 1077, 32, 1103, 1088, 1083, 1099, 1082, 1072, 32, 1074, 1077, 1090, 1074,
      1083, 1077, 1085, 1080, 1103]"

text \<open>Expected the keyword 'while'\<close>

definition msg_expect_while :: ustring where
  "msg_expect_while =
     [1054, 1078, 1080, 1076, 1072, 1077, 1090, 1089, 1103, 32, 1082, 1083, 1102, 1095, 1077,
      1074, 1086, 1077, 32, 1089, 1083, 1086, 1074, 1086, 32, 39, 119, 104, 105, 108, 101, 39]"

text \<open>Expected '(' after 'while'\<close>

definition msg_expect_paren_while :: ustring where
  "msg_expect_paren_while =
     [1054, 1078, 1080, 1076, 1072, 1077, 1090, 1089, 1103, 32, 39, 40, 39, 32, 1087, 1086,
      1089, 1083, 1077, 32, 39, 119, 104, 105, 108, 101, 39]"

text \<open>Expected a condition in parentheses after 'while'\<close>

definition msg_expect_cond_while :: ustring where
  "msg_expect_cond_while =
     [1054, 1078, 1080, 1076, 1072, 1077, 1090, 1089, 1103, 32, 1091, 1089, 1083, 1086, 1074,
      1080, 1077, 32, 1074, 32, 1089, 1082, 1086, 1073, 1082, 1072, 1093, 32, 1087, 1086, 1089,
      1083, 1077, 32, 39, 119, 104, 105, 108, 101, 39]"

text \<open>Expected the keyword 'is'\<close>

definition msg_expect_is :: ustring where
  "msg_expect_is =
     [1054, 1078, 1080, 1076, 1072, 1077, 1090, 1089, 1103, 32, 1082, 1083, 1102, 1095, 1077,
      1074, 1086, 1077, 32, 1089, 1083, 1086, 1074, 1086, 32, 39, 105, 115, 39]"

text \<open>Expected the keyword 'endwhile'\<close>

definition msg_expect_endwhile :: ustring where
  "msg_expect_endwhile =
     [1054, 1078, 1080, 1076, 1072, 1077, 1090, 1089, 1103, 32, 1082, 1083, 1102, 1095, 1077,
      1074, 1086, 1077, 32, 1089, 1083, 1086, 1074, 1086, 32, 39, 101, 110, 100, 119, 104, 105,
      108, 101, 39]"

text \<open>Expected the keyword 'repeat'\<close>

definition msg_expect_repeat :: ustring where
  "msg_expect_repeat =
     [1054, 1078, 1080, 1076, 1072, 1077, 1090, 1089, 1103, 32, 1082, 1083, 1102, 1095, 1077,
      1074, 1086, 1077, 32, 1089, 1083, 1086, 1074, 1086, 32, 39, 114, 101, 112, 101, 97, 116,
      39]"

text \<open>Expected the keyword 'repeat while' after the loop body\<close>

definition msg_expect_repeat_while_after_body :: ustring where
  "msg_expect_repeat_while_after_body =
     [1054, 1078, 1080, 1076, 1072, 1077, 1090, 1089, 1103, 32, 1082, 1083, 1102, 1095, 1077,
      1074, 1086, 1077, 32, 1089, 1083, 1086, 1074, 1086, 32, 39, 114, 101, 112, 101, 97, 116,
      32, 119, 104, 105, 108, 101, 39, 32, 1087, 1086, 1089, 1083, 1077, 32, 1090, 1077, 1083,
      1072, 32, 1094, 1080, 1082, 1083, 1072]"

text \<open>Expected the keyword 'repeat while'\<close>

definition msg_expect_repeat_while :: ustring where
  "msg_expect_repeat_while =
     [1054, 1078, 1080, 1076, 1072, 1077, 1090, 1089, 1103, 32, 1082, 1083, 1102, 1095, 1077,
      1074, 1086, 1077, 32, 1089, 1083, 1086, 1074, 1086, 32, 39, 114, 101, 112, 101, 97, 116,
      32, 119, 104, 105, 108, 101, 39]"

text \<open>Expected '(' after 'repeat while'\<close>

definition msg_expect_paren_repeat :: ustring where
  "msg_expect_paren_repeat =
     [1054, 1078, 1080, 1076, 1072, 1077, 1090, 1089, 1103, 32, 39, 40, 39, 32, 1087, 1086,
      1089, 1083, 1077, 32, 39, 114, 101, 112, 101, 97, 116, 32, 119, 104, 105, 108, 101, 39]"

text \<open>Expected a condition in parentheses after 'repeat while'\<close>

definition msg_expect_cond_repeat :: ustring where
  "msg_expect_cond_repeat =
     [1054, 1078, 1080, 1076, 1072, 1077, 1090, 1089, 1103, 32, 1091, 1089, 1083, 1086, 1074,
      1080, 1077, 32, 1074, 32, 1089, 1082, 1086, 1073, 1082, 1072, 1093, 32, 1087, 1086, 1089,
      1083, 1077, 32, 39, 114, 101, 112, 101, 97, 116, 32, 119, 104, 105, 108, 101, 39]"

text \<open>end of file\<close>

definition str_end_of_file :: ustring where
  "str_end_of_file =
     [1082, 1086, 1085, 1077, 1094, 32, 1092, 1072, 1081, 1083, 1072]"

text \<open>Expected a lexeme of class\<close>

definition str_expect_class :: ustring where
  "str_expect_class =
     [1054, 1078, 1080, 1076, 1072, 1077, 1090, 1089, 1103, 32, 1083, 1077, 1082, 1089, 1077,
      1084, 1072, 32, 1082, 1083, 1072, 1089, 1089, 1072, 32]"

text \<open>Expected the value\<close>

definition str_expect_value :: ustring where
  "str_expect_value =
     [1054, 1078, 1080, 1076, 1072, 1077, 1090, 1089, 1103, 32, 1079, 1085, 1072, 1095, 1077,
      1085, 1080, 1077, 32]"

text \<open>, got\<close>

definition str_got :: ustring where
  "str_got =
     [44, 32, 1087, 1086, 1083, 1091, 1095, 1077, 1085, 1086, 32]"

text \<open>Unexpected token '\<close>

definition str_unexpected_token :: ustring where
  "str_unexpected_token =
     [1053, 1077, 1086, 1078, 1080, 1076, 1072, 1085, 1085, 1099, 1081, 32, 1090, 1086, 1082,
      1077, 1085, 32, 39]"

text \<open>' of type\<close>

definition str_of_type :: ustring where
  "str_of_type =
     [39, 32, 1090, 1080, 1087, 1072, 32]"

text \<open>
  The two spellings of a located message: \<open>expect\<close> writes \<open>(line,pos)\<close>, the checks for a
  missing payload write \<open>(line, pos)\<close> with a space, and \<open>(EOF, 0)\<close> at the end of the tokens.
\<close>

definition located_sp :: "token option \<Rightarrow> ustring \<Rightarrow> ustring" where
  "located_sp tok message =
     str_error @ asc '' ('' @
     (case tok of Some t \<Rightarrow> str_int (tline t) | None \<Rightarrow> asc ''EOF'') @ asc '', '' @
     (case tok of Some t \<Rightarrow> str_int (tpos t) | None \<Rightarrow> asc ''0'') @ asc ''): '' @ message"

definition msg_unexpected_token :: "token \<Rightarrow> ustring" where
  "msg_unexpected_token tok =
     str_unexpected_token @ ttext tok @ str_of_type @ str_nat (tclass tok) @ asc ''.''"

subsection \<open>The token cursor\<close>

record pstate =
  ptokens :: "token list"
  ppos :: nat
  perrors :: "ustring list"

definition current_token :: "pstate \<Rightarrow> token option" where
  "current_token ps = (if ppos ps < length (ptokens ps) then Some (ptokens ps ! ppos ps) else None)"

definition next_token :: "pstate \<Rightarrow> token option \<times> pstate" where
  "next_token ps =
     (case current_token ps of
        None \<Rightarrow> (None, ps)
      | Some t \<Rightarrow> (Some t, ps\<lparr> ppos := ppos ps + 1 \<rparr>))"

definition match :: "nat \<Rightarrow> nat option \<Rightarrow> pstate \<Rightarrow> bool" where
  "match token_class token_value ps =
     (case current_token ps of
        None \<Rightarrow> False
      | Some t \<Rightarrow>
          if tclass t \<noteq> token_class then False
          else (case token_value of
                  Some v \<Rightarrow> tvalue t = v
                | None \<Rightarrow> True))"

definition perror :: "ustring \<Rightarrow> pstate \<Rightarrow> pstate" where
  "perror m ps = ps\<lparr> perrors := perrors ps @ [m] \<rparr>"

text \<open>
  \<open>expect\<close>: the next token if it has the class (and value) asked for; otherwise a message
  is recorded and the result is \<open>None\<close>. \<open>message or ...\<close> takes the default text when the
  message is empty.
\<close>

definition expect :: "nat \<Rightarrow> nat option \<Rightarrow> ustring \<Rightarrow> pstate \<Rightarrow> token option \<times> pstate" where
  "expect token_class token_value message ps =
     (case current_token ps of
        None \<Rightarrow>
          (None, perror (str_error @ asc '' ('' @ str_end_of_file @ asc ''): '' @
                   (if message \<noteq> [] then message
                    else str_expect_class @ str_nat token_class)) ps)
      | Some t \<Rightarrow>
          if tclass t \<noteq> token_class
          then (None, perror (located (str_int (tline t)) (str_int (tpos t))
                   (if message \<noteq> [] then message
                    else str_expect_class @ str_nat token_class @ str_got @ str_nat (tclass t))) ps)
          else (case token_value of
                  Some v \<Rightarrow>
                    if tvalue t \<noteq> v
                    then (None, perror (located (str_int (tline t)) (str_int (tpos t))
                             (if message \<noteq> [] then message
                              else str_expect_value @ str_nat v @ str_got @ str_nat (tvalue t))) ps)
                    else next_token ps
                | None \<Rightarrow> next_token ps))"

subsection \<open>Grammar rules\<close>

text \<open>
  A payload of class 5 (condition or label) or 4 (action) is required next: it is consumed
  and returned, or the message with the spaced position is recorded.
\<close>

definition payload :: "nat \<Rightarrow> ustring \<Rightarrow> pstate \<Rightarrow> token option \<times> pstate" where
  "payload cls message ps =
     (case current_token ps of
        None \<Rightarrow> (None, perror (located_sp None message) ps)
      | Some t \<Rightarrow>
          if tclass t \<noteq> cls then (None, perror (located_sp (Some t) message) ps)
          else next_token ps)"

definition parse_action :: "token \<Rightarrow> pstate \<Rightarrow> node \<times> pstate" where
  "parse_action token ps =
     (let node = mk_node ''action_node'' (tline token) (tpos token)
      in case expect 2 (Some 4) msg_expect_colon ps of
           (None, ps) \<Rightarrow> (node, ps)
         | (Some _, ps) \<Rightarrow>
        (case payload 4 msg_expect_action_content ps of
           (None, ps) \<Rightarrow> (node, ps)
         | (Some content_token, ps) \<Rightarrow>
        (let node = add_child node (token_node ''action_content'' content_token)
         in case expect 2 (Some 3) msg_expect_semicolon ps of
              (_, ps) \<Rightarrow> (node, ps))))"

definition parse_branch_label :: "pstate \<Rightarrow> node option \<times> pstate" where
  "parse_branch_label ps =
     (case expect 2 (Some 1) msg_expect_paren_label ps of
        (None, ps) \<Rightarrow> (None, ps)
      | (Some _, ps) \<Rightarrow>
     (case current_token ps of
        None \<Rightarrow> (None, perror (located_sp None msg_expect_label) ps)
      | Some t \<Rightarrow>
          if tclass t \<noteq> 5
          then (let ps = perror (located_sp (Some t) msg_expect_label) ps
                in (None, if match 2 (Some 2) ps then snd (next_token ps) else ps))
          else (case next_token ps of
                  (_, ps) \<Rightarrow>
               (case expect 2 (Some 2) msg_expect_close_label ps of
                  (None, ps) \<Rightarrow> (None, ps)
                | (Some _, ps) \<Rightarrow> (Some (token_node ''branch_label'' t), ps)))))"

text \<open>
  The four loops that collect the statements of a body have one shape: until the stop test
  holds, parse a statement; keep it, or leave the loop if there is none. \<open>stmt\<close> is the
  statement parser and \<open>k\<close> bounds the iterations (\<open>None\<close>: not finished within the bound).
\<close>

fun statements ::
  "(pstate \<Rightarrow> (node option \<times> pstate) option) \<Rightarrow> nat \<Rightarrow> (pstate \<Rightarrow> bool) \<Rightarrow> node list \<Rightarrow>
   pstate \<Rightarrow> (node list \<times> pstate) option" where
  "statements stmt 0 stop acc ps = None"
| "statements stmt (Suc k) stop acc ps =
     (if stop ps then Some (acc, ps)
      else (case stmt ps of
              None \<Rightarrow> None
            | Some (None, ps) \<Rightarrow> Some (acc, ps)
            | Some (Some nd, ps) \<Rightarrow> statements stmt k stop (acc @ [nd]) ps))"

definition add_body :: "string \<Rightarrow> node list \<Rightarrow> node \<Rightarrow> node" where
  "add_body t stmts node = (if stmts \<noteq> [] then add_child node (body_node t stmts) else node)"

definition parse_else ::
  "((pstate \<Rightarrow> bool) \<Rightarrow> node list \<Rightarrow> pstate \<Rightarrow> (node list \<times> pstate) option) \<Rightarrow>
   node \<Rightarrow> pstate \<Rightarrow> (node \<times> pstate) option" where
  "parse_else body node ps =
     (if match 1 (Some 6) ps
      then (case next_token ps of (_, ps) \<Rightarrow>
           (case expect 2 (Some 1) msg_expect_paren_else ps of (_, ps) \<Rightarrow>
           (case (case current_token ps of
                    None \<Rightarrow> (node, ps)
                  | Some t \<Rightarrow>
                      if tclass t = 5
                      then (add_child node (token_node ''else_branch_label'' t), snd (next_token ps))
                      else (node, ps)) of (node, ps) \<Rightarrow>
           (case (if match 2 (Some 2) ps then snd (next_token ps) else ps) of ps \<Rightarrow>
           (case body (\<lambda>ps. match 1 (Some 7) ps) [] ps of
              None \<Rightarrow> None
            | Some (else_body_nodes, ps) \<Rightarrow>
                Some (add_body ''else_branch'' else_body_nodes node, ps))))))
      else Some (node, ps))"

definition parse_if_statement ::
  "((pstate \<Rightarrow> bool) \<Rightarrow> node list \<Rightarrow> pstate \<Rightarrow> (node list \<times> pstate) option) \<Rightarrow>
   token \<Rightarrow> pstate \<Rightarrow> (node \<times> pstate) option" where
  "parse_if_statement body token ps =
     (let node = mk_node ''if_statement'' (tline token) (tpos token)
      in case expect 1 (Some 4) msg_expect_if ps of
           (None, ps) \<Rightarrow> Some (node, ps)
         | (Some _, ps) \<Rightarrow>
        (case expect 2 (Some 1) msg_expect_paren_if ps of
           (None, ps) \<Rightarrow> Some (node, ps)
         | (Some _, ps) \<Rightarrow>
        (case payload 5 msg_expect_cond_if ps of
           (None, ps) \<Rightarrow> Some (node, ps)
         | (Some cond_token, ps) \<Rightarrow>
        (let node = add_child node (token_node ''condition_content'' cond_token)
         in case expect 2 (Some 2) msg_expect_close_cond ps of
              (None, ps) \<Rightarrow> Some (node, ps)
            | (Some _, ps) \<Rightarrow>
        (case expect 1 (Some 5) msg_expect_then ps of
           (None, ps) \<Rightarrow> Some (node, ps)
         | (Some _, ps) \<Rightarrow>
        (case expect 2 (Some 1) msg_expect_paren_then ps of
           (None, ps) \<Rightarrow> Some (node, ps)
         | (Some _, ps) \<Rightarrow>
        (case payload 5 msg_expect_label ps of
           (None, ps) \<Rightarrow> Some (node, ps)
         | (Some branch_label_token, ps) \<Rightarrow>
        (let node = add_child node (token_node ''branch_label'' branch_label_token)
         in case expect 2 (Some 2) msg_expect_close_then ps of
              (None, ps) \<Rightarrow> Some (node, ps)
            | (Some _, ps) \<Rightarrow>
        (case body (\<lambda>ps. match 1 (Some 6) ps \<or> match 1 (Some 7) ps) [] ps of
           None \<Rightarrow> None
         | Some (then_body_nodes, ps) \<Rightarrow>
        (case parse_else body (add_body ''then_branch'' then_body_nodes node) ps of
           None \<Rightarrow> None
         | Some (node, ps) \<Rightarrow>
        (case expect 1 (Some 7) msg_expect_endif ps of
           (_, ps) \<Rightarrow> Some (node, ps))))))))))))"

definition parse_while_loop ::
  "((pstate \<Rightarrow> bool) \<Rightarrow> node list \<Rightarrow> pstate \<Rightarrow> (node list \<times> pstate) option) \<Rightarrow>
   token \<Rightarrow> pstate \<Rightarrow> (node \<times> pstate) option" where
  "parse_while_loop body token ps =
     (let node = mk_node ''while_loop_node'' (tline token) (tpos token)
      in case expect 1 (Some 8) msg_expect_while ps of
           (None, ps) \<Rightarrow> Some (node, ps)
         | (Some _, ps) \<Rightarrow>
        (case expect 2 (Some 1) msg_expect_paren_while ps of
           (None, ps) \<Rightarrow> Some (node, ps)
         | (Some _, ps) \<Rightarrow>
        (case payload 5 msg_expect_cond_while ps of
           (None, ps) \<Rightarrow> Some (node, ps)
         | (Some cond_token, ps) \<Rightarrow>
        (let node = add_child node (token_node ''condition_content'' cond_token)
         in case expect 2 (Some 2) msg_expect_close_cond ps of
              (None, ps) \<Rightarrow> Some (node, ps)
            | (Some _, ps) \<Rightarrow>
        (case expect 1 (Some 9) msg_expect_is ps of
           (None, ps) \<Rightarrow> Some (node, ps)
         | (Some _, ps) \<Rightarrow>
        (case parse_branch_label ps of
           (None, ps) \<Rightarrow> Some (node, ps)
         | (Some branch_label_node, ps) \<Rightarrow>
        (let node = add_child node branch_label_node
         in case body (\<lambda>ps. match 1 (Some 10) ps \<or> ppos ps \<ge> length (ptokens ps) \<or>
                             match 1 (Some 3) ps \<or> match 1 (Some 13) ps) [] ps of
              None \<Rightarrow> None
            | Some (body_nodes, ps) \<Rightarrow>
        (let node = add_body ''while_body'' body_nodes node
         in case expect 1 (Some 10) msg_expect_endwhile ps of
              (None, ps) \<Rightarrow> Some (node, ps)
            | (Some _, ps) \<Rightarrow>
        (case parse_branch_label ps of
           (None, ps) \<Rightarrow> Some (node, ps)
         | (Some end_branch_label_node, ps) \<Rightarrow>
             Some (add_child node end_branch_label_node, ps))))))))))"

definition parse_repeat_until_loop ::
  "((pstate \<Rightarrow> bool) \<Rightarrow> node list \<Rightarrow> pstate \<Rightarrow> (node list \<times> pstate) option) \<Rightarrow>
   token \<Rightarrow> pstate \<Rightarrow> (node \<times> pstate) option" where
  "parse_repeat_until_loop body token ps =
     (let node = mk_node ''repeat_until_loop_node'' (tline token) (tpos token)
      in case expect 1 (Some 11) msg_expect_repeat ps of
           (None, ps) \<Rightarrow>
             Some (node, perror (str_error @ asc '' ('' @ str_end_of_file @ asc ''): '' @
                                   msg_expect_repeat_while_after_body) ps)
         | (Some _, ps) \<Rightarrow>
        (case body (\<lambda>ps. match 1 (Some 12) ps \<or> match 1 (Some 3) ps \<or> match 1 (Some 13) ps)
                [] ps of
           None \<Rightarrow> None
         | Some (body_nodes, ps) \<Rightarrow>
        (let node = add_body ''repeat_body'' body_nodes node
         in case expect 1 (Some 12) msg_expect_repeat_while ps of
              (None, ps) \<Rightarrow> Some (node, ps)
            | (Some _, ps) \<Rightarrow>
        (case expect 2 (Some 1) msg_expect_paren_repeat ps of
           (None, ps) \<Rightarrow> Some (node, ps)
         | (Some _, ps) \<Rightarrow>
        (case payload 5 msg_expect_cond_repeat ps of
           (None, ps) \<Rightarrow> Some (node, ps)
         | (Some cond_token, ps) \<Rightarrow>
        (let node = add_child node (token_node ''condition_content'' cond_token)
         in case expect 2 (Some 2) msg_expect_close_cond ps of
              (None, ps) \<Rightarrow> Some (node, ps)
            | (Some _, ps) \<Rightarrow>
        (case expect 1 (Some 9) msg_expect_is ps of
           (None, ps) \<Rightarrow> Some (node, ps)
         | (Some _, ps) \<Rightarrow>
        (case parse_branch_label ps of
           (None, ps) \<Rightarrow> Some (node, ps)
         | (Some l, ps) \<Rightarrow>
             Some (add_child node
                     (Node (asc ''repeat_until_branch_label'') (nvalue l) (children l)
                        (nline l) (npos l)), ps)))))))))"

text \<open>
  \<open>parse_statement\<close>, given the statement parser \<open>stmt\<close> for the statements nested one level
  deeper and the bound \<open>k\<close> of their loops.
\<close>

definition statement_rule ::
  "(pstate \<Rightarrow> (node option \<times> pstate) option) \<Rightarrow> nat \<Rightarrow> pstate \<Rightarrow> (node option \<times> pstate) option" where
  "statement_rule stmt k ps =
     (case current_token ps of
        None \<Rightarrow> Some (None, ps)
      | Some token \<Rightarrow>
          if match 2 (Some 4) ps
          then (case parse_action token ps of (nd, ps) \<Rightarrow> Some (Some nd, ps))
          else if match 1 (Some 4) ps
          then map_option (\<lambda>(nd, ps). (Some nd, ps)) (parse_if_statement (statements stmt k) token ps)
          else if match 1 (Some 11) ps
          then map_option (\<lambda>(nd, ps). (Some nd, ps))
                 (parse_repeat_until_loop (statements stmt k) token ps)
          else if match 1 (Some 8) ps
          then map_option (\<lambda>(nd, ps). (Some nd, ps)) (parse_while_loop (statements stmt k) token ps)
          else if match 1 (Some 7) ps then Some (None, ps)
          else if match 1 (Some 10) ps then Some (None, ps)
          else Some (None, perror (located (str_int (tline token)) (str_int (tpos token))
                                     (msg_unexpected_token token)) ps))"

text \<open>The recursion of the parser, bounded by \<open>n\<close>: \<open>None\<close> means the bound was reached.\<close>

fun parse_statement :: "nat \<Rightarrow> pstate \<Rightarrow> (node option \<times> pstate) option" where
  "parse_statement 0 ps = None"
| "parse_statement (Suc n) ps = statement_rule (parse_statement n) n ps"

text \<open>The loop of \<open>parse_program\<close>, which skips a token when no statement could be parsed.\<close>

fun program_statements :: "nat \<Rightarrow> nat \<Rightarrow> node \<Rightarrow> pstate \<Rightarrow> (node \<times> pstate) option" where
  "program_statements n 0 node ps = None"
| "program_statements n (Suc k) node ps =
     (if match 1 (Some 3) ps then Some (node, ps)
      else if ppos ps \<ge> length (ptokens ps) then Some (node, ps)
      else if match 1 None ps \<and> (case current_token ps of Some t \<Rightarrow> tvalue t \<in> {3, 13} | None \<Rightarrow> False)
      then Some (node, ps)
      else (case parse_statement n ps of
              None \<Rightarrow> None
            | Some (Some stmt, ps) \<Rightarrow> program_statements n k (add_child node stmt) ps
            | Some (None, ps) \<Rightarrow>
                program_statements n k node
                  (if ppos ps < length (ptokens ps) then snd (next_token ps) else ps)))"

definition parse_program :: "nat \<Rightarrow> pstate \<Rightarrow> (node \<times> pstate) option" where
  "parse_program n ps =
     (let node = mk_node ''program'' 1 1
      in case expect 1 (Some 1) msg_expect_startuml ps of
           (None, ps) \<Rightarrow> Some (node, ps)
         | (Some startuml_token, ps) \<Rightarrow>
        (let node = add_child node (token_node ''startuml_keyword'' startuml_token)
         in case expect 1 (Some 2) msg_expect_start ps of
              (None, ps) \<Rightarrow> Some (node, ps)
            | (Some start_token, ps) \<Rightarrow>
        (let node = add_child node (token_node ''start_node'' start_token)
         in case program_statements n n node ps of
              None \<Rightarrow> None
            | Some (node, ps) \<Rightarrow>
        (case expect 1 (Some 3) msg_expect_stop ps of
           (None, ps) \<Rightarrow> Some (node, ps)
         | (Some stop_token, ps) \<Rightarrow>
        (let node = add_child node (token_node ''stop_node'' stop_token)
         in case expect 1 (Some 13) msg_expect_enduml ps of
              (None, ps) \<Rightarrow> Some (node, ps)
            | (Some enduml_token, ps) \<Rightarrow>
                Some (add_child node (token_node ''enduml_keyword'' enduml_token), ps))))))"

text \<open>\<open>parse\<close>: the root and the messages; the flag returned is that there is no message.\<close>

definition parse :: "nat \<Rightarrow> token list \<Rightarrow> (node \<times> ustring list) option" where
  "parse n toks =
     map_option (\<lambda>(root, ps). (root, perrors ps))
       (parse_program n \<lparr> ptokens = toks, ppos = 0, perrors = [] \<rparr>)"


section \<open>More of Python's strings and of \<open>re\<close>\<close>

definition startswith :: "ustring \<Rightarrow> ustring \<Rightarrow> bool" where
  "startswith s p \<longleftrightarrow> take (length p) s = p"

definition endswith :: "ustring \<Rightarrow> ustring \<Rightarrow> bool" where
  "endswith s p \<longleftrightarrow> length p \<le> length s \<and> drop (length s - length p) s = p"

text \<open>\<open>sep.join(xs)\<close>.\<close>

fun join :: "ustring \<Rightarrow> ustring list \<Rightarrow> ustring" where
  "join sep [] = []"
| "join sep [x] = x"
| "join sep (x # y # ys) = x @ sep @ join sep (y # ys)"

text \<open>\<open>s.split(',')\<close>: the pieces between the commas.\<close>

fun split_on :: "uchar \<Rightarrow> ustring \<Rightarrow> ustring \<Rightarrow> ustring list" where
  "split_on d acc [] = [acc]"
| "split_on d acc (c # cs) = (if c = d then acc # split_on d [] cs else split_on d (acc @ [c]) cs)"

text \<open>
  \<open>re.split(r',\s*', s)\<close>: as above, but the whitespace that follows a comma belongs to the
  separator. \<open>skip\<close> says that a comma has just been passed.
\<close>

fun split_comma_ws :: "bool \<Rightarrow> ustring \<Rightarrow> ustring \<Rightarrow> ustring list" where
  "split_comma_ws skip acc [] = [acc]"
| "split_comma_ws skip acc (c # cs) =
     (if c = 44 then acc # split_comma_ws True [] cs
      else if skip \<and> isspace c then split_comma_ws True acc cs
      else split_comma_ws False (acc @ [c]) cs)"

text \<open>\<open>s.replace(old, new)\<close> for a non-empty \<open>old\<close>: the occurrences from left to right.\<close>

function replace :: "ustring \<Rightarrow> ustring \<Rightarrow> ustring \<Rightarrow> ustring" where
  "replace old new s =
     (if old = [] \<or> s = [] then s
      else if take (length old) s = old then new @ replace old new (drop (length old) s)
      else hd s # replace old new (tl s))"
  by pat_completeness auto
termination
  by (relation "measure (\<lambda>(old, new, s). length s)") auto

declare replace.simps [simp del]

text \<open>The classes \<open>[a-zA-Z_]\<close> and \<open>[a-zA-Z0-9_]\<close>, and \<open>\w\<close> of a \<open>str\<close> pattern.\<close>

definition ident_start :: "uchar \<Rightarrow> bool" where
  "ident_start c \<longleftrightarrow> ascii_alpha c \<or> c = 95"

definition ident_char :: "uchar \<Rightarrow> bool" where
  "ident_char c \<longleftrightarrow> ascii_alpha c \<or> ascii_digit c \<or> c = 95"

definition is_word :: "unicode_db \<Rightarrow> uchar \<Rightarrow> bool" where
  "is_word U c \<longleftrightarrow> isalnum U c \<or> c = 95"

text \<open>\<open>re.fullmatch(r'^[a-zA-Z_][a-zA-Z0-9_]*$', s)\<close>.\<close>

definition is_identifier :: "ustring \<Rightarrow> bool" where
  "is_identifier s \<longleftrightarrow> (case s of [] \<Rightarrow> False | c # cs \<Rightarrow> ident_start c \<and> list_all ident_char cs)"

text \<open>\<open>re.match\<close> of the same pattern: \<open>$\<close> also matches before a final newline.\<close>

definition match_identifier :: "ustring \<Rightarrow> bool" where
  "match_identifier s \<longleftrightarrow>
     is_identifier s \<or> (s \<noteq> [] \<and> last s = 10 \<and> is_identifier (butlast s))"

text \<open>
  \<open>re.match(r'^["\'].*["\']$', s)\<close>: a quote, characters other than newline, a quote, and
  the end of the string or a final newline.
\<close>

definition is_quote :: "uchar \<Rightarrow> bool" where
  "is_quote c \<longleftrightarrow> c = 34 \<or> c = 39"

definition quoted_to_end :: "ustring \<Rightarrow> bool" where
  "quoted_to_end s \<longleftrightarrow>
     2 \<le> length s \<and> is_quote (hd s) \<and> is_quote (last s) \<and> 10 \<notin> set (butlast (tl s))"

definition match_quoted :: "ustring \<Rightarrow> bool" where
  "match_quoted s \<longleftrightarrow> quoted_to_end s \<or> (s \<noteq> [] \<and> last s = 10 \<and> quoted_to_end (butlast s))"

text \<open>
  \<open>re.findall(r'\b[a-zA-Z_][a-zA-Z0-9_]*\b', s)\<close>. The flag says whether the character
  before is a word character; the option holds the identifier being read. A run of
  identifier characters that starts or ends inside a word is no match.
\<close>

fun find_identifiers :: "unicode_db \<Rightarrow> bool \<Rightarrow> ustring option \<Rightarrow> ustring \<Rightarrow> ustring list" where
  "find_identifiers U prev None [] = []"
| "find_identifiers U prev (Some r) [] = [r]"
| "find_identifiers U prev None (c # cs) =
     (if \<not> prev \<and> ident_start c then find_identifiers U True (Some [c]) cs
      else find_identifiers U (is_word U c) None cs)"
| "find_identifiers U prev (Some r) (c # cs) =
     (if ident_char c then find_identifiers U True (Some (r @ [c])) cs
      else if is_word U c then find_identifiers U True None cs
      else r # find_identifiers U False None cs)"

definition findall_identifiers :: "unicode_db \<Rightarrow> ustring \<Rightarrow> ustring list" where
  "findall_identifiers U s = find_identifiers U False None s"

subsection \<open>The assignment patterns\<close>

text \<open>\<open>(:?=)\<close>: the text after the assignment sign.\<close>

definition after_assign_op :: "ustring \<Rightarrow> ustring option" where
  "after_assign_op r =
     (if take 2 r = asc '':='' then Some (drop 2 r)
      else if take 1 r = asc ''='' then Some (drop 1 r)
      else None)"

text \<open>
  \<open>\s*(.+)$\<close>: the group is the text after the last newline (a final newline apart), which
  must not be empty and must be preceded by whitespace only; the greedy \<open>\s*\<close> takes its
  leading whitespace but leaves the group one character.
\<close>

definition assign_tail :: "ustring \<Rightarrow> ustring option" where
  "assign_tail r =
     (let body = (if r \<noteq> [] \<and> last r = 10 then butlast r else r);
          seg = rev (takeWhile (\<lambda>c. c \<noteq> 10) (rev body));
          pre = take (length body - length seg) body
      in if seg \<noteq> [] \<and> list_all isspace pre
         then Some (if dropWhile isspace seg \<noteq> [] then dropWhile isspace seg else [last seg])
         else None)"

text \<open>
  \<open>re.match(r'^([a-zA-Z_][a-zA-Z0-9_]*)\s*(:?=)\s*(.+)$', s)\<close>: groups 1 and 3.
\<close>

definition simple_assign_match :: "ustring \<Rightarrow> (ustring \<times> ustring) option" where
  "simple_assign_match s =
     (case s of
        [] \<Rightarrow> None
      | c # cs \<Rightarrow>
          if \<not> ident_start c then None
          else (case after_assign_op (dropWhile isspace (dropWhile ident_char cs)) of
                  None \<Rightarrow> None
                | Some r \<Rightarrow>
                    (case assign_tail r of
                       None \<Rightarrow> None
                     | Some g \<Rightarrow> Some (c # takeWhile ident_char cs, g))))"

text \<open>
  \<open>re.match(r'^([a-zA-Z_][a-zA-Z0-9_]*)\s*\[\s*(.+?)\s*\]\s*(:?=)\s*(.+)$', s)\<close>: groups 1, 2
  and 4. After the bracket the engine tries the longest run of whitespace first and then
  shorter ones, and for each the shortest index group after which the rest matches.
\<close>

definition index_tail :: "ustring \<Rightarrow> ustring option" where
  "index_tail r =
     (case dropWhile isspace r of
        [] \<Rightarrow> None
      | c # r1 \<Rightarrow>
          if c \<noteq> 93 then None
          else (case after_assign_op (dropWhile isspace r1) of
                  None \<Rightarrow> None
                | Some r2 \<Rightarrow> assign_tail r2))"

fun grow_index :: "ustring \<Rightarrow> ustring \<Rightarrow> (ustring \<times> ustring) option" where
  "grow_index g [] = None"
| "grow_index g (c # cs) =
     (case index_tail (c # cs) of
        Some v \<Rightarrow> Some (g, v)
      | None \<Rightarrow> if c = 10 then None else grow_index (g @ [c]) cs)"

definition index_from :: "ustring \<Rightarrow> (ustring \<times> ustring) option" where
  "index_from x = (case x of [] \<Rightarrow> None | c # cs \<Rightarrow> if c = 10 then None else grow_index [c] cs)"

fun try_starts :: "nat \<Rightarrow> ustring \<Rightarrow> (ustring \<times> ustring) option" where
  "try_starts 0 t = index_from t"
| "try_starts (Suc k) t =
     (case index_from (drop (Suc k) t) of Some r \<Rightarrow> Some r | None \<Rightarrow> try_starts k t)"

definition array_assign_match :: "ustring \<Rightarrow> (ustring \<times> ustring \<times> ustring) option" where
  "array_assign_match s =
     (case s of
        [] \<Rightarrow> None
      | c # cs \<Rightarrow>
          if \<not> ident_start c then None
          else (case dropWhile isspace (dropWhile ident_char cs) of
                  [] \<Rightarrow> None
                | b # t \<Rightarrow>
                    if b \<noteq> 91 then None
                    else (case try_starts (length (takeWhile isspace t)) t of
                            None \<Rightarrow> None
                          | Some (ix, v) \<Rightarrow> Some (c # takeWhile ident_char cs, ix, v))))"

subsection \<open>constants.py: \<open>FOR_LOOP_PATTERN\<close> and \<open>PASCAL_KEYWORDS\<close>\<close>

text \<open>
  With \<open>re.IGNORECASE\<close> the classes \<open>[a-zA-Z_]\<close> and \<open>[a-zA-Z0-9_]\<close> also match the four
  letters U+0130, U+0131, U+017F and U+212A, as the documentation of \<open>re\<close> says.
\<close>

definition ci_extra :: "uchar \<Rightarrow> bool" where
  "ci_extra c \<longleftrightarrow> c = 304 \<or> c = 305 \<or> c = 383 \<or> c = 8490"

definition ident_start_ci :: "uchar \<Rightarrow> bool" where
  "ident_start_ci c \<longleftrightarrow> ident_start c \<or> ci_extra c"

definition ident_char_ci :: "uchar \<Rightarrow> bool" where
  "ident_char_ci c \<longleftrightarrow> ident_char c \<or> ci_extra c"

definition ascii_lower :: "ustring \<Rightarrow> ustring" where
  "ascii_lower s = map (\<lambda>c. if 65 \<le> c \<and> c \<le> 90 then c + 32 else c) s"

text \<open>
  \<open>(.+?)\s*$\<close>: the shortest group, without newline, after which only whitespace follows.
\<close>

fun shortest_end :: "ustring \<Rightarrow> ustring \<Rightarrow> ustring option" where
  "shortest_end g [] = Some g"
| "shortest_end g (c # cs) =
     (if list_all isspace (c # cs) then Some g
      else if c = 10 then None else shortest_end (g @ [c]) cs)"

definition end_from :: "ustring \<Rightarrow> ustring option" where
  "end_from x = (case x of [] \<Rightarrow> None | c # cs \<Rightarrow> if c = 10 then None else shortest_end [c] cs)"

text \<open>\<open>\s+(.+?)\s*$\<close>: the whitespace is tried longest first and keeps one character.\<close>

fun try_ends :: "nat \<Rightarrow> ustring \<Rightarrow> ustring option" where
  "try_ends 0 t = None"
| "try_ends (Suc k) t =
     (case end_from (drop (Suc k) t) of Some g \<Rightarrow> Some g | None \<Rightarrow> try_ends k t)"

text \<open>\<open>\s+(to|downto)\s+(.+?)\s*$\<close>: the direction as written and the end value.\<close>

definition direction_tail :: "ustring \<Rightarrow> (ustring \<times> ustring) option" where
  "direction_tail r =
     (if r = [] \<or> \<not> isspace (hd r) then None
      else (let r1 = dropWhile isspace r;
                d = (if ascii_lower (take 2 r1) = asc ''to'' then Some (take 2 r1)
                     else if ascii_lower (take 6 r1) = asc ''downto'' then Some (take 6 r1)
                     else None)
            in case d of
                 None \<Rightarrow> None
               | Some dir \<Rightarrow>
                   (let r2 = drop (length dir) r1
                    in case try_ends (length (takeWhile isspace r2)) r2 of
                         None \<Rightarrow> None
                       | Some e \<Rightarrow> Some (dir, e))))"

fun grow_start :: "ustring \<Rightarrow> ustring \<Rightarrow> (ustring \<times> ustring \<times> ustring) option" where
  "grow_start g [] = None"
| "grow_start g (c # cs) =
     (case direction_tail (c # cs) of
        Some (dir, e) \<Rightarrow> Some (g, dir, e)
      | None \<Rightarrow> if c = 10 then None else grow_start (g @ [c]) cs)"

definition start_from :: "ustring \<Rightarrow> (ustring \<times> ustring \<times> ustring) option" where
  "start_from x = (case x of [] \<Rightarrow> None | c # cs \<Rightarrow> if c = 10 then None else grow_start [c] cs)"

fun try_start_values :: "nat \<Rightarrow> ustring \<Rightarrow> (ustring \<times> ustring \<times> ustring) option" where
  "try_start_values 0 t = start_from t"
| "try_start_values (Suc k) t =
     (case start_from (drop (Suc k) t) of Some r \<Rightarrow> Some r | None \<Rightarrow> try_start_values k t)"

text \<open>\<open>FOR_LOOP_PATTERN.match(s)\<close>: the groups 1 to 4.\<close>

definition for_loop_match :: "ustring \<Rightarrow> (ustring \<times> ustring \<times> ustring \<times> ustring) option" where
  "for_loop_match s =
     (case dropWhile isspace s of
        [] \<Rightarrow> None
      | c # cs \<Rightarrow>
          if \<not> ident_start_ci c then None
          else (let r = dropWhile isspace (dropWhile ident_char_ci cs); t = drop 2 r
                in if take 2 r \<noteq> asc '':='' then None
                   else (case try_start_values (length (takeWhile isspace t)) t of
                           None \<Rightarrow> None
                         | Some (st, dir, e) \<Rightarrow>
                             Some (c # takeWhile ident_char_ci cs, st, dir, e))))"

definition PASCAL_KEYWORDS :: "ustring list" where
  "PASCAL_KEYWORDS = map asc
     [''and'', ''abs'', ''array'', ''as'', ''begin'', ''case'', ''class'', ''const'',
      ''constructor'', ''continue'', ''destructor'', ''div'', ''do'', ''downto'', ''else'',
      ''end'', ''enum'', ''except'', ''exports'', ''file'', ''finalization'', ''finally'',
      ''for'', ''foreach'', ''forward'', ''function'', ''goto'', ''if'', ''implementation'',
      ''in'', ''inherited'', ''initialization'', ''inline'', ''interface'', ''is'', ''label'',
      ''mod'', ''new'', ''nil'', ''not'', ''object'', ''of'', ''operator'', ''or'', ''packed'',
      ''procedure'', ''program'', ''property'', ''raise'', ''record'', ''repeat'', ''sealed'',
      ''set'', ''shl'', ''shr'', ''static'', ''string'', ''then'', ''to'', ''try'', ''type'',
      ''unit'', ''until'', ''uses'', ''var'', ''while'', ''with'', ''xor'',
      ''true'', ''false'',
      ''integer'', ''real'', ''boolean'', ''char'',
      ''private'', ''protected'', ''public'', ''internal'',
      ''yield'', ''break'']"

definition is_pascal_keyword :: "unicode_db \<Rightarrow> ustring \<Rightarrow> bool" where
  "is_pascal_keyword U name \<longleftrightarrow> lower U name \<in> set PASCAL_KEYWORDS"

section \<open>sema.py: SemanticAnalyzer\<close>

text \<open>The input marker of an action, Russian for: Input:\<close>

definition str_vvod :: ustring where
  "str_vvod =
     [1042, 1074, 1086, 1076, 58]"

text \<open>The output marker of an action, Russian for: Output:\<close>

definition str_vyvod :: ustring where
  "str_vyvod =
     [1042, 1099, 1074, 1086, 1076, 58]"

text \<open>Warning\<close>

definition str_warning :: ustring where
  "str_warning =
     [1055, 1088, 1077, 1076, 1091, 1087, 1088, 1077, 1078, 1076, 1077, 1085, 1080, 1077]"

text \<open>Invalid variable name in Input: '\<close>

definition str_bad_input_name :: ustring where
  "str_bad_input_name =
     [1053, 1077, 1074, 1077, 1088, 1085, 1086, 1077, 32, 1080, 1084, 1103, 32, 1087, 1077,
      1088, 1077, 1084, 1077, 1085, 1085, 1086, 1081, 32, 1074, 32, 1042, 1074, 1086, 1076, 58,
      32, 39]"

text \<open>Empty output\<close>

definition str_empty_output :: ustring where
  "str_empty_output =
     [1055, 1091, 1089, 1090, 1086, 1081, 32, 1074, 1099, 1074, 1086, 1076]"

text \<open>The variable '\<close>

definition str_variable :: ustring where
  "str_variable =
     [1055, 1077, 1088, 1077, 1084, 1077, 1085, 1085, 1072, 1103, 32, 39]"

text \<open>' is used in 'Output:' but was not declared before.\<close>

definition str_used_in_output :: ustring where
  "str_used_in_output =
     [39, 32, 1080, 1089, 1087, 1086, 1083, 1100, 1079, 1091, 1077, 1090, 1089, 1103, 32, 1074,
      32, 39, 1042, 1099, 1074, 1086, 1076, 58, 39, 44, 32, 1085, 1086, 32, 1085, 1077, 32,
      1086, 1073, 1098, 1103, 1074, 1083, 1077, 1085, 1072, 32, 1088, 1072, 1085, 1077, 1077,
      46]"

text \<open>' is used in an expression but was not declared before.\<close>

definition str_used_in_expression :: ustring where
  "str_used_in_expression =
     [39, 32, 1080, 1089, 1087, 1086, 1083, 1100, 1079, 1091, 1077, 1090, 1089, 1103, 32, 1074,
      32, 1074, 1099, 1088, 1072, 1078, 1077, 1085, 1080, 1080, 44, 32, 1085, 1086, 32, 1085,
      1077, 32, 1086, 1073, 1098, 1103, 1074, 1083, 1077, 1085, 1072, 32, 1088, 1072, 1085,
      1077, 1077, 46]"

text \<open>' is used in a condition but was not declared before.\<close>

definition str_used_in_condition :: ustring where
  "str_used_in_condition =
     [39, 32, 1080, 1089, 1087, 1086, 1083, 1100, 1079, 1091, 1077, 1090, 1089, 1103, 32, 1074,
      32, 1091, 1089, 1083, 1086, 1074, 1080, 1080, 44, 32, 1085, 1086, 32, 1085, 1077, 32,
      1086, 1073, 1098, 1103, 1074, 1083, 1077, 1085, 1072, 32, 1088, 1072, 1085, 1077, 1077,
      46]"

text \<open>Invalid block content: '\<close>

definition str_invalid_block :: ustring where
  "str_invalid_block =
     [1053, 1077, 1076, 1086, 1087, 1091, 1089, 1090, 1080, 1084, 1086, 1077, 32, 1089, 1086,
      1076, 1077, 1088, 1078, 1080, 1084, 1086, 1077, 32, 1073, 1083, 1086, 1082, 1072, 58, 32,
      39]"

text \<open>'. Only these are allowed: 'Input: ...', 'Output: ...', or 'variable := expression'.\<close>

definition str_allowed_only :: ustring where
  "str_allowed_only =
     [39, 46, 32, 1056, 1072, 1079, 1088, 1077, 1096, 1077, 1085, 1099, 32, 1090, 1086, 1083,
      1100, 1082, 1086, 58, 32, 39, 1042, 1074, 1086, 1076, 58, 32, 46, 46, 46, 39, 44, 32, 39,
      1042, 1099, 1074, 1086, 1076, 58, 32, 46, 46, 46, 39, 44, 32, 1080, 1083, 1080, 32, 39,
      1087, 1077, 1088, 1077, 1084, 1077, 1085, 1085, 1072, 1103, 32, 58, 61, 32, 1074, 1099,
      1088, 1072, 1078, 1077, 1085, 1080, 1077, 39, 46]"

definition warning_at :: "int \<Rightarrow> int \<Rightarrow> ustring \<Rightarrow> ustring" where
  "warning_at l p message =
     str_warning @ asc '' ('' @ str_int l @ asc '','' @ str_int p @ asc ''): '' @ message"

definition error_at :: "int \<Rightarrow> int \<Rightarrow> ustring \<Rightarrow> ustring" where
  "error_at l p message = located (str_int l) (str_int p) message"

record sema =
  symbols :: symbol_table
  s_errors :: "ustring list"
  s_warnings :: "ustring list"

definition sema_define :: "ustring \<Rightarrow> define_args \<Rightarrow> sema \<Rightarrow> sema" where
  "sema_define n a st = st\<lparr> symbols := define_sym (symbols st) n a \<rparr>"

definition at :: "int \<Rightarrow> int \<Rightarrow> define_args \<Rightarrow> define_args" where
  "at l p a = a\<lparr> a_line := Some l, a_pos := Some p \<rparr>"

text \<open>
  \<open>infer_type\<close> is passed to the analyzer as the parameter \<open>infer\<close>: what is proved below
  holds for whatever type it infers.
\<close>

type_synonym infer_type = "ustring \<Rightarrow> symbol_table \<Rightarrow> ustring"

definition analyze_input :: "ustring \<Rightarrow> int \<Rightarrow> int \<Rightarrow> sema \<Rightarrow> sema" where
  "analyze_input content line pos st =
     (let vars_str = strip (drop 5 content);
          var_names = filter (\<lambda>v. v \<noteq> []) (map strip (split_comma_ws False [] vars_str))
      in fold (\<lambda>var_name st.
                 if match_identifier var_name
                 then sema_define var_name (at line pos (default_args\<lparr> a_declared := True \<rparr>)) st
                 else st\<lparr> s_errors := s_errors st @
                        [error_at line pos (str_bad_input_name @ var_name @ asc [CHR 0x27])] \<rparr>)
           var_names st)"

text \<open>A name used before any definition gets a warning; then it is defined.\<close>

definition use_name :: "ustring \<Rightarrow> ustring \<Rightarrow> define_args \<Rightarrow> sema \<Rightarrow> sema" where
  "use_name how n a st =
     sema_define n a
       (case lookup (symbols st) n of
          None \<Rightarrow> st\<lparr> s_warnings := s_warnings st @
                       [warning_at (the (a_line a)) (the (a_pos a)) (str_variable @ n @ how)] \<rparr>
        | Some _ \<Rightarrow> st)"

definition analyze_output :: "ustring \<Rightarrow> int \<Rightarrow> int \<Rightarrow> sema \<Rightarrow> sema" where
  "analyze_output content line pos st =
     (let output_content = strip (drop 6 content)
      in if output_content = []
         then st\<lparr> s_warnings := s_warnings st @ [warning_at line pos str_empty_output] \<rparr>
         else fold (\<lambda>part st.
                      if part = [] then st
                      else if match_quoted part then st
                      else if is_identifier part
                      then use_name str_used_in_output part (at line pos default_args) st
                      else st)
                (map strip (split_on 44 [] output_content)) st)"

definition analyze_action_content ::
  "unicode_db \<Rightarrow> infer_type \<Rightarrow> ustring \<Rightarrow> int \<Rightarrow> int \<Rightarrow> sema \<Rightarrow> sema" where
  "analyze_action_content U infer content0 line pos st =
     (let content = strip content0
      in if startswith content str_vvod then analyze_input content line pos st
         else if startswith content str_vyvod then analyze_output content line pos st
         else (case array_assign_match content of
                 Some (arr_name, index_group, value_group) \<Rightarrow>
                   (let value_type = infer (strip value_group) (symbols st);
                        st = sema_define arr_name
                               (at line pos (default_args\<lparr> a_var_type := value_type,
                                  a_is_array := True, a_declared := True \<rparr>)) st
                    in fold (\<lambda>idx_var st.
                               if is_pascal_keyword U idx_var then st
                               else sema_define idx_var (at line pos default_args) st)
                         (findall_identifiers U (strip index_group)) st)
               | None \<Rightarrow>
                   (case simple_assign_match content of
                      Some (var_name, expr_group) \<Rightarrow>
                        (let expression = strip expr_group;
                             var_type = infer expression (symbols st);
                             st = sema_define var_name
                                    (at line pos (default_args\<lparr> a_var_type := var_type,
                                       a_declared := True \<rparr>)) st
                         in fold (\<lambda>used_var st.
                                    if used_var = var_name then st
                                    else use_name str_used_in_expression used_var
                                           (at line pos default_args) st)
                              (findall_identifiers U expression) st)
                    | None \<Rightarrow>
                        st\<lparr> s_errors := s_errors st @
                          [error_at line pos (str_invalid_block @ content @ str_allowed_only)] \<rparr>)))"

definition analyze_condition_content ::
  "unicode_db \<Rightarrow> ustring \<Rightarrow> int \<Rightarrow> int \<Rightarrow> sema \<Rightarrow> sema" where
  "analyze_condition_content U content0 line pos st =
     (let content = replace (asc ''!='') (asc ''<>'') content0
      in case for_loop_match content of
           Some (counter_var, start_group, direction, end_group) \<Rightarrow>
             (let st = sema_define counter_var
                         (at line pos (default_args\<lparr> a_declared := True \<rparr>)) st
              in fold (\<lambda>expr st.
                         fold (\<lambda>var st.
                                 if \<not> is_pascal_keyword U var
                                 then sema_define var (at line pos default_args) st else st)
                           (findall_identifiers U expr) st)
                   [strip start_group, strip end_group] st)
         | None \<Rightarrow>
             fold (\<lambda>var_name st.
                     if is_pascal_keyword U var_name then st
                     else use_name str_used_in_condition var_name
                            (at line pos (default_args\<lparr> a_declared := True \<rparr>)) st)
               (findall_identifiers U content) st)"

definition process_node :: "unicode_db \<Rightarrow> infer_type \<Rightarrow> node \<Rightarrow> sema \<Rightarrow> sema" where
  "process_node U infer nd st =
     (case nvalue nd of
        None \<Rightarrow> st
      | Some v \<Rightarrow>
          if ntype nd = asc ''action_content'' \<and> v \<noteq> []
          then analyze_action_content U infer v (nline nd) (npos nd) st
          else if ntype nd = asc ''condition_content'' \<and> v \<noteq> []
          then analyze_condition_content U v (nline nd) (npos nd) st
          else st)"

text \<open>\<open>_visit\<close>: the node, then its children from left to right.\<close>

fun sema_visit :: "unicode_db \<Rightarrow> infer_type \<Rightarrow> node \<Rightarrow> sema \<Rightarrow> sema"
  and sema_visit_all :: "unicode_db \<Rightarrow> infer_type \<Rightarrow> node list \<Rightarrow> sema \<Rightarrow> sema" where
  "sema_visit U infer (Node t v cs l p) st =
     sema_visit_all U infer cs (process_node U infer (Node t v cs l p) st)"
| "sema_visit_all U infer [] st = st"
| "sema_visit_all U infer (c # cs) st = sema_visit_all U infer cs (sema_visit U infer c st)"

definition analyze :: "unicode_db \<Rightarrow> infer_type \<Rightarrow> node option \<Rightarrow> sema" where
  "analyze U infer ast_root_node =
     (let st = \<lparr> symbols = [], s_errors = [], s_warnings = [] \<rparr>
      in case ast_root_node of None \<Rightarrow> st | Some root \<Rightarrow> sema_visit U infer root st)"


section \<open>code_generator.py: PascalCodeGenerator\<close>

text \<open>The uniform record of a diagnostic, as every stage reports it.\<close>

record diagnostic =
  d_type :: ustring
  d_line :: int
  d_pos :: int
  d_message :: ustring
  d_source :: ustring

text \<open>The root node of the AST is missing\<close>

definition msg_no_root :: ustring where
  "msg_no_root =
     [1050, 1086, 1088, 1085, 1077, 1074, 1086, 1081, 32, 1091, 1079, 1077, 1083, 32, 65, 83,
      84, 32, 1086, 1090, 1089, 1091, 1090, 1089, 1090, 1074, 1091, 1077, 1090]"

text \<open>Generation error: there is no AST.\<close>

definition msg_no_ast_text :: ustring where
  "msg_no_ast_text =
     [1054, 1096, 1080, 1073, 1082, 1072, 32, 1075, 1077, 1085, 1077, 1088, 1072, 1094, 1080,
      1080, 58, 32, 1086, 1090, 1089, 1091, 1090, 1089, 1090, 1074, 1091, 1077, 1090, 32, 65,
      83, 84, 32, 1076, 1077, 1088, 1077, 1074, 1086, 46]"

text \<open>(* GENERATION ERRORS:\<close>

definition str_generation_errors :: ustring where
  "str_generation_errors =
     [40, 42, 32, 1054, 1064, 1048, 1041, 1050, 1048, 32, 1043, 1045, 1053, 1045, 1056, 1040,
      1062, 1048, 1048, 58, 32]"

text \<open>The root node of the program was not found\<close>

definition msg_no_program_node :: ustring where
  "msg_no_program_node =
     [1050, 1086, 1088, 1085, 1077, 1074, 1086, 1081, 32, 1091, 1079, 1077, 1083, 32, 1087,
      1088, 1086, 1075, 1088, 1072, 1084, 1084, 1099, 32, 1085, 1077, 32, 1085, 1072, 1081,
      1076, 1077, 1085]"

text \<open>Expected a node of type 'program', got '\<close>

definition str_expected_program :: ustring where
  "str_expected_program =
     [1054, 1078, 1080, 1076, 1072, 1083, 1089, 1103, 32, 1091, 1079, 1077, 1083, 32, 1090,
      1080, 1087, 1072, 32, 39, 112, 114, 111, 103, 114, 97, 109, 39, 44, 32, 1087, 1086, 1083,
      1091, 1095, 1077, 1085, 32, 39]"

text \<open>Empty action content\<close>

definition msg_empty_action :: ustring where
  "msg_empty_action =
     [1055, 1091, 1089, 1090, 1086, 1077, 32, 1089, 1086, 1076, 1077, 1088, 1078, 1080, 1084,
      1086, 1077, 32, 1076, 1077, 1081, 1089, 1090, 1074, 1080, 1103]"

text \<open>Empty list of variables in Input:\<close>

definition msg_empty_input_list :: ustring where
  "msg_empty_input_list =
     [1055, 1091, 1089, 1090, 1086, 1081, 32, 1089, 1087, 1080, 1089, 1086, 1082, 32, 1087,
      1077, 1088, 1077, 1084, 1077, 1085, 1085, 1099, 1093, 32, 1074, 32, 1042, 1074, 1086,
      1076, 58]"

text \<open>The condition of the IF statement is missing\<close>

definition msg_no_if_condition :: ustring where
  "msg_no_if_condition =
     [1054, 1090, 1089, 1091, 1090, 1089, 1090, 1074, 1091, 1077, 1090, 32, 1091, 1089, 1083,
      1086, 1074, 1080, 1077, 32, 1074, 32, 73, 70, 45, 1086, 1087, 1077, 1088, 1072, 1090,
      1086, 1088, 1077]"

text \<open>The condition of the loop is missing\<close>

definition msg_no_loop_condition :: ustring where
  "msg_no_loop_condition =
     [1054, 1090, 1089, 1091, 1090, 1089, 1090, 1074, 1091, 1077, 1090, 32, 1091, 1089, 1083,
      1086, 1074, 1080, 1077, 32, 1074, 32, 1094, 1080, 1082, 1083, 1077]"

text \<open>The body of the loop is missing\<close>

definition msg_no_loop_body :: ustring where
  "msg_no_loop_body =
     [1054, 1090, 1089, 1091, 1090, 1089, 1090, 1074, 1091, 1077, 1090, 32, 1090, 1077, 1083,
      1086, 32, 1094, 1080, 1082, 1083, 1072]"

text \<open>The body of the REPEAT-UNTIL loop is missing\<close>

definition msg_no_repeat_body :: ustring where
  "msg_no_repeat_body =
     [1054, 1090, 1089, 1091, 1090, 1089, 1090, 1074, 1091, 1077, 1090, 32, 1090, 1077, 1083,
      1086, 32, 82, 69, 80, 69, 65, 84, 45, 85, 78, 84, 73, 76, 32, 1094, 1080, 1082, 1083,
      1072]"

text \<open>The UNTIL condition is missing\<close>

definition msg_no_until_condition :: ustring where
  "msg_no_until_condition =
     [1054, 1090, 1089, 1091, 1090, 1089, 1090, 1074, 1091, 1077, 1090, 32, 1091, 1089, 1083,
      1086, 1074, 1080, 1077, 32, 85, 78, 84, 73, 76]"

text \<open>Error generating the IF statement:\<close>

definition str_if_failed :: ustring where
  "str_if_failed =
     [1054, 1096, 1080, 1073, 1082, 1072, 32, 1075, 1077, 1085, 1077, 1088, 1072, 1094, 1080,
      1080, 32, 73, 70, 45, 1086, 1087, 1077, 1088, 1072, 1090, 1086, 1088, 1072, 58, 32]"

text \<open>Error generating the loop:\<close>

definition str_loop_failed :: ustring where
  "str_loop_failed =
     [1054, 1096, 1080, 1073, 1082, 1072, 32, 1075, 1077, 1085, 1077, 1088, 1072, 1094, 1080,
      1080, 32, 1094, 1080, 1082, 1083, 1072, 58, 32]"

text \<open>Error generating the REPEAT-UNTIL loop:\<close>

definition str_repeat_failed :: ustring where
  "str_repeat_failed =
     [1054, 1096, 1080, 1073, 1082, 1072, 32, 1075, 1077, 1085, 1077, 1088, 1072, 1094, 1080,
      1080, 32, 82, 69, 80, 69, 65, 84, 45, 85, 78, 84, 73, 76, 32, 1094, 1080, 1082, 1083,
      1072, 58, 32]"

text \<open>Critical generation error:\<close>

definition str_critical :: ustring where
  "str_critical =
     [1050, 1088, 1080, 1090, 1080, 1095, 1077, 1089, 1082, 1072, 1103, 32, 1086, 1096, 1080,
      1073, 1082, 1072, 32, 1075, 1077, 1085, 1077, 1088, 1072, 1094, 1080, 1080, 58, 32]"

text \<open>(* CRITICAL ERROR *), newline, Code generation error. Check the logic of the diagram.\<close>

definition msg_critical_text :: ustring where
  "msg_critical_text =
     [40, 42, 32, 1050, 1056, 1048, 1058, 1048, 1063, 1045, 1057, 1050, 1040, 1071, 32, 1054,
      1064, 1048, 1041, 1050, 1040, 32, 42, 41, 10, 1054, 1096, 1080, 1073, 1082, 1072, 32,
      1075, 1077, 1085, 1077, 1088, 1072, 1094, 1080, 1080, 32, 1082, 1086, 1076, 1072, 46, 32,
      1055, 1088, 1086, 1074, 1077, 1088, 1100, 1090, 1077, 32, 1083, 1086, 1075, 1080, 1082,
      1091, 32, 1076, 1080, 1072, 1075, 1088, 1072, 1084, 1084, 1099, 46]"

text \<open>No PlantUML code was provided\<close>

definition msg_no_plantuml :: ustring where
  "msg_no_plantuml =
     [1053, 1077, 32, 1087, 1088, 1077, 1076, 1086, 1089, 1090, 1072, 1074, 1083, 1077, 1085,
      32, 1082, 1086, 1076, 32, 80, 108, 97, 110, 116, 85, 77, 76]"

record gen =
  code_lines :: "ustring list"
  g_errors :: "diagnostic list"
  indent_level :: nat

text \<open>\<open>_record_error(message, source_line, source_pos)\<close>; both positions default to -1.\<close>

definition record_error :: "ustring \<Rightarrow> int \<Rightarrow> int \<Rightarrow> gen \<Rightarrow> gen" where
  "record_error message source_line source_pos g =
     g\<lparr> g_errors := g_errors g @
          [\<lparr> d_type = asc ''error'', d_line = source_line, d_pos = source_pos,
             d_message = message, d_source = asc ''generator'' \<rparr>] \<rparr>"

definition add_line :: "ustring \<Rightarrow> gen \<Rightarrow> gen" where
  "add_line line g =
     g\<lparr> code_lines := code_lines g @ [concat (replicate (indent_level g) (asc ''    '')) @ line] \<rparr>"

definition indent :: "gen \<Rightarrow> gen" where
  "indent g = g\<lparr> indent_level := indent_level g + 1 \<rparr>"

definition dedent :: "gen \<Rightarrow> gen" where
  "dedent g = g\<lparr> indent_level := indent_level g - 1 \<rparr>"

text \<open>\<open>"'" + inner.replace("'", "''") + "'"\<close>: a Pascal string literal.\<close>

definition pascal_string :: "ustring \<Rightarrow> ustring" where
  "pascal_string inner = [39] @ replace [39] [39, 39] inner @ [39]"

text \<open>
  \<open>re.split(r'(["\'].*?["\'])', expr)\<close>: the text between the quoted pieces and the quoted
  pieces themselves. The option holds an opening quote and what follows it, which is a piece
  once a closing quote comes, and text if a newline or the end comes first.
\<close>

fun split_quoted :: "ustring \<Rightarrow> ustring option \<Rightarrow> ustring \<Rightarrow> ustring list" where
  "split_quoted acc None [] = [acc]"
| "split_quoted acc (Some b) [] = [acc @ b]"
| "split_quoted acc None (c # cs) =
     (if is_quote c then split_quoted acc (Some [c]) cs else split_quoted (acc @ [c]) None cs)"
| "split_quoted acc (Some b) (c # cs) =
     (if is_quote c then acc # (b @ [c]) # split_quoted [] None cs
      else if c = 10 then split_quoted (acc @ b @ [c]) None cs
      else split_quoted acc (Some (b @ [c])) cs)"

definition process_string_literals :: "ustring \<Rightarrow> ustring" where
  "process_string_literals expr =
     (if expr = [] then expr
      else concat (map (\<lambda>part. if match_quoted part then pascal_string (butlast (tl part)) else part)
                     (filter (\<lambda>part. part \<noteq> []) (split_quoted [] None expr))))"

text \<open>\<open>_generate_var_section\<close>: one line per type, types and names sorted.\<close>

definition generate_var_section :: "unicode_db \<Rightarrow> symbol_table \<Rightarrow> gen \<Rightarrow> gen" where
  "generate_var_section U st g =
     (let syms = filter (\<lambda>s. \<not> is_pascal_keyword U (sym_name s)) (get_all_symbols st);
          types = sort (remdups (map sym_type syms))
      in if types = [] then g
         else add_line []
                (fold (\<lambda>var_type g.
                         add_line (join (asc '', '')
                                     (sort (remdups (map sym_name
                                        (filter (\<lambda>s. sym_type s = var_type) syms)))) @
                                   asc '': '' @ var_type @ asc '';'') g)
                   types (add_line (asc ''VAR'') g)))"

text \<open>\<open>_generate_action\<close>. The content of an action node may be missing.\<close>

definition generate_output :: "ustring \<Rightarrow> gen \<Rightarrow> gen" where
  "generate_output output_content g =
     (if output_content = [] then add_line (asc ''writeln();'') g
      else add_line
             (asc ''writeln('' @
              join (asc '', '')
                (map (\<lambda>part. if match_quoted part then pascal_string (butlast (tl part))
                              else if is_identifier part then part
                              else pascal_string part)
                   (filter (\<lambda>part. part \<noteq> []) (map strip (split_on 44 [] output_content)))) @
              asc '');'') g)"

definition generate_action :: "ustring option \<Rightarrow> int \<Rightarrow> int \<Rightarrow> gen \<Rightarrow> gen" where
  "generate_action content0 line pos g =
     (if content0 = None \<or> content0 = Some [] then record_error msg_empty_action line (- 1) g
      else (let content = replace (asc ''!='') (asc ''<>'') (strip (the content0))
            in if startswith content str_vvod
               then (let vars_str = strip (drop 5 content);
                         var_names = filter (\<lambda>v. v \<noteq> [])
                                       (map strip (split_comma_ws False [] vars_str))
                     in if vars_str = [] then record_error msg_empty_input_list line (- 1) g
                        else if var_names \<noteq> []
                        then add_line (asc ''readln('' @ join (asc '', '') var_names @ asc '');'') g
                        else g)
               else if startswith content str_vyvod
               then generate_output (strip (drop 6 content)) g
               else (case simple_assign_match content of
                       Some (var_name, expr_group) \<Rightarrow>
                         (let expression = strip expr_group
                          in if match_quoted expression
                             then add_line (var_name @ asc '' := '' @
                                    pascal_string
                                      (if (startswith expression [34] \<and> endswith expression [34]) \<or>
                                          (startswith expression [39] \<and> endswith expression [39])
                                       then butlast (tl expression) else expression) @ asc '';'') g
                             else add_line (var_name @ asc '' := '' @ expression @ asc '';'') g)
                     | None \<Rightarrow> if content \<noteq> [] then add_line (content @ asc '';'') g else g)))"

text \<open>
  The loops over \<open>node.children\<close> that pick the condition and the bodies. Taking the
  condition calls \<open>replace\<close> on the value of every \<open>condition_content\<close> child, which raises
  \<open>AttributeError\<close> when a value is missing; the generators catch it and record its text.
\<close>

definition last_child :: "string \<Rightarrow> node list \<Rightarrow> node option" where
  "last_child t cs = find (\<lambda>c. ntype c = asc t) (rev cs)"

definition attribute_error :: ustring where
  "attribute_error = asc [CHR 0x27] @ asc ''NoneType'' @ asc [CHR 0x27] @
     asc '' object has no attribute '' @ asc [CHR 0x27] @ asc ''replace'' @ asc [CHR 0x27]"

definition condition_of :: "node list \<Rightarrow> ustring option" where
  "condition_of cs =
     (if \<exists>c \<in> set cs. ntype c = asc ''condition_content'' \<and> nvalue c = None then None
      else Some (case last_child ''condition_content'' cs of
                   None \<Rightarrow> []
                 | Some c \<Rightarrow> replace (asc ''!='') (asc ''<>'') (the (nvalue c))))"

lemma find_in_set: "find P xs = Some x \<Longrightarrow> x \<in> set xs"
  by (induction xs) (auto split: if_splits)

lemma last_child_size:
  assumes "last_child t cs = Some b" and "x \<in> set (children b)"
  shows "size x < Suc (size_list size cs)"
proof -
  from assms(1) have "b \<in> set (rev cs)"
    unfolding last_child_def by (rule find_in_set)
  then have "size b \<le> size_list size cs"
    by (simp add: size_list_estimation')
  moreover have "size x < size b"
  proof (cases b)
    case (Node t v cs' l p)
    with assms(2) have "size x \<le> size_list size cs'"
      by (simp add: size_list_estimation')
    with Node show ?thesis by simp
  qed
  ultimately show ?thesis by simp
qed

text \<open>
  \<open>_visit\<close>, with \<open>_generate_if\<close>, \<open>_generate_while\<close> and \<open>_generate_repeat_until\<close>, which
  call it on the statements of their bodies.
\<close>

lemma child_size: "x \<in> set (children n) \<Longrightarrow> size x < size n"
  by (cases n) (auto simp: less_Suc_eq_le size_list_estimation')

lemma grandchild_size:
  assumes "last_child t (children n) = Some b" and "x \<in> set (children b)"
  shows "Suc (2 * size x) < 2 * size n"
proof -
  from assms(1) have "b \<in> set (children n)"
    unfolding last_child_def by (auto dest: find_in_set)
  then have "size b < size n" by (rule child_size)
  moreover from assms(2) have "size x < size b" by (rule child_size)
  ultimately show ?thesis by simp
qed

definition for_header :: "ustring \<times> ustring \<times> ustring \<times> ustring \<Rightarrow> ustring" where
  "for_header m =
     (case m of (counter_var, start_group, direction, end_group) \<Rightarrow>
        asc ''FOR '' @ counter_var @ asc '' := '' @ process_string_literals (strip start_group) @
        asc '' '' @ map (\<lambda>c. if 97 \<le> c \<and> c \<le> 122 then c - 32 else c) direction @ asc '' '' @
        process_string_literals (strip end_group) @ asc '' DO'')"

definition visit_actions :: "node list \<Rightarrow> int \<Rightarrow> int \<Rightarrow> gen \<Rightarrow> gen" where
  "visit_actions cs line pos g =
     fold (\<lambda>child g. if ntype child = asc ''action_content''
                      then generate_action (nvalue child) line pos g else g) cs g"

definition structural_types :: "ustring set" where
  "structural_types =
     {asc ''start_node'', asc ''stop_node'', asc ''startuml_keyword'', asc ''enduml_keyword'',
      asc ''condition_content'', asc ''branch_label''}"

function visit :: "node \<Rightarrow> gen \<Rightarrow> gen"
  and generate_if :: "node \<Rightarrow> int \<Rightarrow> int \<Rightarrow> gen \<Rightarrow> gen"
  and generate_while :: "node \<Rightarrow> int \<Rightarrow> int \<Rightarrow> gen \<Rightarrow> gen"
  and generate_repeat_until :: "node \<Rightarrow> int \<Rightarrow> int \<Rightarrow> gen \<Rightarrow> gen" where
  "visit node g =
     (if ntype node = asc ''action_node''
      then visit_actions (children node) (nline node) (npos node) g
      else if ntype node = asc ''if_statement'' then generate_if node (nline node) (npos node) g
      else if ntype node = asc ''while_loop_node''
      then generate_while node (nline node) (npos node) g
      else if ntype node = asc ''repeat_until_loop_node''
      then generate_repeat_until node (nline node) (npos node) g
      else if ntype node \<in> structural_types then g
      else fold (\<lambda>child g. visit child g) (children node) g)"
| "generate_if node line pos g =
     (case condition_of (children node) of
        None \<Rightarrow> record_error (str_if_failed @ attribute_error) line (- 1) g
      | Some condition \<Rightarrow>
          if condition = [] then record_error msg_no_if_condition line (- 1) g
          else (let g = indent (add_line (asc ''BEGIN'')
                          (add_line (asc ''IF ('' @ condition @ asc '') THEN'') g));
                    g = (case last_child ''then_branch'' (children node) of
                           Some then_branch \<Rightarrow>
                             fold (\<lambda>stmt g. visit stmt g) (children then_branch) g
                         | None \<Rightarrow> g);
                    g = add_line (asc ''END'') (dedent g);
                    g = (case last_child ''else_branch'' (children node) of
                           Some else_branch \<Rightarrow>
                             add_line (asc ''END'')
                               (dedent (fold (\<lambda>stmt g. visit stmt g) (children else_branch)
                                  (indent (add_line (asc ''BEGIN'') (add_line (asc ''ELSE'') g)))))
                         | None \<Rightarrow> g)
                in add_line (asc '';'') g))"
| "generate_while node line pos g =
     (case condition_of (children node) of
        None \<Rightarrow> record_error (str_loop_failed @ attribute_error) line (- 1) g
      | Some condition \<Rightarrow>
          if condition = [] then record_error msg_no_loop_condition line (- 1) g
          else (case last_child ''while_body'' (children node) of
                  None \<Rightarrow> record_error msg_no_loop_body line (- 1) g
                | Some body \<Rightarrow>
                    (case for_loop_match condition of
                       Some m \<Rightarrow>
                         add_line (asc ''END;'')
                           (dedent (fold (\<lambda>stmt g. visit stmt g) (children body)
                              (indent (add_line (asc ''BEGIN'') (add_line (for_header m) g)))))
                     | None \<Rightarrow>
                         add_line (asc ''END;'')
                           (dedent (fold (\<lambda>stmt g. visit stmt g) (children body)
                              (indent (add_line (asc ''BEGIN'')
                                 (add_line (asc ''WHILE ('' @ condition @ asc '') DO'') g))))))))"
| "generate_repeat_until node line pos g =
     (case condition_of (children node) of
        None \<Rightarrow> record_error (str_repeat_failed @ attribute_error) line (- 1) g
      | Some condition \<Rightarrow>
          (case last_child ''repeat_body'' (children node) of
             None \<Rightarrow> record_error msg_no_repeat_body line (- 1) g
           | Some body \<Rightarrow>
               if condition = [] then record_error msg_no_until_condition line (- 1) g
               else add_line (asc ''UNTIL ('' @ condition @ asc '');'')
                      (dedent (fold (\<lambda>stmt g. visit stmt g) (children body)
                         (indent (add_line (asc ''REPEAT'') g))))))"
  by pat_completeness auto
termination
  by (relation "measure (\<lambda>x. case x of
                   Inl (Inl (n, g)) \<Rightarrow> 2 * size n + 1
                 | Inl (Inr (n, l, p, g)) \<Rightarrow> 2 * size n
                 | Inr (Inl (n, l, p, g)) \<Rightarrow> 2 * size n
                 | Inr (Inr (n, l, p, g)) \<Rightarrow> 2 * size n)")
     (auto dest: grandchild_size child_size)

declare visit.simps [simp del] generate_if.simps [simp del] generate_while.simps [simp del]
  generate_repeat_until.simps [simp del]


text \<open>\<open>_validate_program_node\<close>, for a root that is there.\<close>

definition validate_program_node :: "node \<Rightarrow> gen \<Rightarrow> bool \<times> gen" where
  "validate_program_node node g =
     (if ntype node \<noteq> asc ''program''
      then (False, record_error (str_expected_program @ ntype node @ asc [CHR 0x27]) (- 1) (- 1) g)
      else (True, g))"

text \<open>
  \<open>generate\<close>: the text returned and the diagnostics left in \<open>self.errors\<close>. The handler of
  the outer \<open>try\<close> is not modelled: on a tree of \<open>Node\<close> objects every exception is raised
  and caught inside \<open>_generate_if\<close>, \<open>_generate_while\<close> or \<open>_generate_repeat_until\<close>.
\<close>

definition generate_body :: "unicode_db \<Rightarrow> node \<Rightarrow> symbol_table \<Rightarrow> gen" where
  "generate_body U root st =
     (let g = \<lparr> code_lines = [], g_errors = [], indent_level = 0 \<rparr>;
          g = add_line [] (add_line (asc ''PROGRAM Generated;'') g);
          g = generate_var_section U st g;
          g = indent (add_line (asc ''BEGIN'') g)
      in case validate_program_node root g of
           (ok, g) \<Rightarrow>
             add_line (asc ''END.'')
               (dedent (if ok
                        then fold (\<lambda>child g.
                                     if ntype child \<notin> {asc ''startuml_keyword'', asc ''enduml_keyword''}
                                     then visit child g else g)
                               (children root) g
                        else g)))"

definition error_comment :: "diagnostic list \<Rightarrow> ustring" where
  "error_comment errs = str_generation_errors @ join (asc ''; '') (map d_message errs) @ asc '' *)''"

definition generate :: "unicode_db \<Rightarrow> node option \<Rightarrow> symbol_table \<Rightarrow> ustring \<times> diagnostic list" where
  "generate U ast_root st =
     (case ast_root of
        None \<Rightarrow>
          (msg_no_ast_text,
           g_errors (record_error msg_no_root (- 1) (- 1)
                       \<lparr> code_lines = [], g_errors = [], indent_level = 0 \<rparr>))
      | Some root \<Rightarrow>
          (let g = generate_body U root st
           in if g_errors g \<noteq> []
              then (error_comment (g_errors g) @ [10] @ join [10] (code_lines g), g_errors g)
              else (join [10] (code_lines g), g_errors g)))"

section \<open>The diagnostics of the stages\<close>

text \<open>
  \<open>\s*(.+)\<close> at the end of the patterns: the message is what follows the whitespace, up
  to a newline; if only whitespace follows, its last character that is no newline.
\<close>

definition message_group :: "ustring \<Rightarrow> ustring option" where
  "message_group x =
     (if dropWhile isspace x \<noteq> [] then Some (takeWhile (\<lambda>c. c \<noteq> 10) (dropWhile isspace x))
      else (case dropWhile (\<lambda>c. c = 10) (rev x) of [] \<Rightarrow> None | c # _ \<Rightarrow> Some [c]))"

text \<open>\<open>(\d+),(\d+)\<close> at the start of a string: the two numbers and the rest.\<close>

definition two_numbers :: "unicode_db \<Rightarrow> ustring \<Rightarrow> (int \<times> int \<times> ustring) option" where
  "two_numbers U s =
     (let d1 = takeWhile (is_decimal U) s; r1 = dropWhile (is_decimal U) s;
          d2 = takeWhile (is_decimal U) (drop 1 r1); r2 = dropWhile (is_decimal U) (drop 1 r1)
      in if d1 \<noteq> [] \<and> take 1 r1 = asc '','' \<and> d2 \<noteq> []
         then Some (int_of_digits U d1, int_of_digits U d2, r2) else None)"

definition diag :: "string \<Rightarrow> string \<Rightarrow> int \<Rightarrow> int \<Rightarrow> ustring \<Rightarrow> diagnostic" where
  "diag ty src l p m =
     \<lparr> d_type = asc ty, d_line = l, d_pos = p, d_message = m, d_source = asc src \<rparr>"

text \<open>
  \<open>PlantUMLLexer.get_detailed_errors\<close>, with the pattern
  \<open>Error\s*\((\d+),(\d+)\):\s*(.+)\<close> (the word in Russian).
\<close>

definition lexer_detailed_error :: "unicode_db \<Rightarrow> ustring \<Rightarrow> diagnostic" where
  "lexer_detailed_error U error_msg =
     (let fallback = diag ''error'' ''lexer'' (- 1) (- 1)
                       (replace (str_error @ asc '': '') [] error_msg);
          r = dropWhile isspace (drop (length str_error) error_msg)
      in if \<not> startswith error_msg str_error \<or> take 1 r \<noteq> asc ''('' then fallback
         else (case two_numbers U (drop 1 r) of
                 None \<Rightarrow> fallback
               | Some (line, pos, r2) \<Rightarrow>
                   if take 2 r2 \<noteq> asc ''):'' then fallback
                   else (case message_group (drop 2 r2) of
                           None \<Rightarrow> fallback
                         | Some message \<Rightarrow> diag ''error'' ''lexer'' line pos message)))"

text \<open>
  \<open>PlantUMLSyntaxAnalyzer.get_detailed_errors\<close>, with the pattern
  \<open>Error\s*\(([^)]+)\):\s*(.+)\<close>, the test for "end of file" and then \<open>(\d+),(\d+)\<close>.
\<close>

definition parser_detailed_error :: "unicode_db \<Rightarrow> ustring \<Rightarrow> diagnostic" where
  "parser_detailed_error U error_msg =
     (let fallback = diag ''error'' ''parser'' (- 1) (- 1) error_msg;
          r = dropWhile isspace (drop (length str_error) error_msg);
          position_info = takeWhile (\<lambda>c. c \<noteq> 41) (drop 1 r);
          r2 = dropWhile (\<lambda>c. c \<noteq> 41) (drop 1 r)
      in if \<not> startswith error_msg str_error \<or> take 1 r \<noteq> asc ''('' \<or> position_info = [] \<or>
            take 2 r2 \<noteq> asc ''):''
         then fallback
         else (case message_group (drop 2 r2) of
                 None \<Rightarrow> fallback
               | Some message \<Rightarrow>
                   if lower U position_info = str_end_of_file
                   then diag ''error'' ''parser'' (- 1) (- 1) message
                   else (case two_numbers U position_info of
                           Some (line, pos, _) \<Rightarrow> diag ''error'' ''parser'' line pos message
                         | None \<Rightarrow> fallback)))"

text \<open>
  \<open>SemanticAnalyzer.get_all_issues\<close>, with the pattern \<open>Error \((\d+),(\d+)\): (.+)\<close> and the
  same for warnings; a message that does not match is left out.
\<close>

definition semantic_issue :: "unicode_db \<Rightarrow> string \<Rightarrow> ustring \<Rightarrow> ustring \<Rightarrow> diagnostic option" where
  "semantic_issue U ty word msg =
     (if \<not> startswith msg (word @ asc '' ('') then None
      else (case two_numbers U (drop (length word + 2) msg) of
              None \<Rightarrow> None
            | Some (line, pos, r) \<Rightarrow>
                if take 3 r \<noteq> asc ''): '' \<or> takeWhile (\<lambda>c. c \<noteq> 10) (drop 3 r) = [] then None
                else Some (diag ty ''semantic'' line pos (takeWhile (\<lambda>c. c \<noteq> 10) (drop 3 r)))))"

definition get_all_issues :: "unicode_db \<Rightarrow> sema \<Rightarrow> diagnostic list" where
  "get_all_issues U st =
     List.map_filter (semantic_issue U ''error'' str_error) (s_errors st) @
     List.map_filter (semantic_issue U ''warning'' str_warning) (s_warnings st)"

section \<open>app.py: the pipeline of \<open>generate_pascal\<close>\<close>

record response =
  success :: bool
  pascal_code :: ustring
  r_errors :: "diagnostic list"
  r_warnings :: "diagnostic list"

definition failure :: "diagnostic list \<Rightarrow> diagnostic list \<Rightarrow> response" where
  "failure errs warns = \<lparr> success = False, pascal_code = [], r_errors = errs, r_warnings = warns \<rparr>"

text \<open>
  The request carries the diagram text or not. The parser gets one more step than there
  are tokens, which is enough; \<open>None\<close> would mean that it was not.
\<close>

definition generate_pascal :: "unicode_db \<Rightarrow> infer_type \<Rightarrow> ustring option \<Rightarrow> response option" where
  "generate_pascal U infer data =
     (case data of
        None \<Rightarrow> Some (failure [diag ''error'' ''request'' (- 1) (- 1) msg_no_plantuml] [])
      | Some plantuml_code \<Rightarrow>
          (let lexer = scan U plantuml_code
           in if \<not> scan_ok lexer
              then Some (failure (map (lexer_detailed_error U) (errors lexer)) [])
              else (case parse (Suc (length (lex_table lexer))) (lex_table lexer) of
                      None \<Rightarrow> None
                    | Some (ast_root, parse_errors) \<Rightarrow>
                        if parse_errors \<noteq> []
                        then Some (failure (map (parser_detailed_error U) parse_errors) [])
                        else (let st = analyze U infer (Some ast_root);
                                  issues = (if s_errors st \<noteq> [] \<or> s_warnings st \<noteq> []
                                            then get_all_issues U st else []);
                                  all_errors = filter (\<lambda>i. d_type i = asc ''error'') issues;
                                  all_warnings = filter (\<lambda>i. d_type i = asc ''warning'') issues
                              in if all_errors \<noteq> [] then Some (failure all_errors all_warnings)
                                 else (case generate U (Some ast_root) (symbols st) of
                                         (code, generator_errors) \<Rightarrow>
                                           Some \<lparr> success = (all_errors @ generator_errors = []),
                                                  pascal_code = code,
                                                  r_errors = all_errors @ generator_errors,
                                                  r_warnings = all_warnings \<rparr>)))))"


section \<open>Claims about the code generator\<close>

lemmas string_eval = asc_def strip_def lstrip_def rstrip_def isspace_def startswith_def
  endswith_def str_vvod_def str_vyvod_def replace.simps

lemmas pattern_eval = simple_assign_match_def after_assign_op_def assign_tail_def ident_start_def
  ident_char_def ascii_alpha_def ascii_digit_def for_loop_match_def ident_start_ci_def
  ident_char_ci_def ci_extra_def start_from_def direction_tail_def end_from_def ascii_lower_def
  match_quoted_def quoted_to_end_def is_quote_def is_identifier_def

text \<open>
  C10, as stated, fails: the payload is stripped and every \<open>!=\<close> in it is rewritten to \<open><>\<close>
  before the line is written, so a payload such as \<open>a[1] != 2\<close> is not emitted verbatim.
\<close>

theorem generate_action_not_verbatim:
  "code_lines (generate_action (Some (asc ''a[1] != 2'')) 1 0
                 \<lparr> code_lines = [], g_errors = [], indent_level = 0 \<rparr>)
     = [asc ''a[1] <> 2;''] \<and>
   asc ''a[1] <> 2;'' \<noteq> asc ''a[1] != 2'' @ asc '';''"
  by (simp add: generate_action_def add_line_def string_eval pattern_eval)

text \<open>
  C10, amended. A payload is stripped and its \<open>!=\<close> rewritten; if what remains is not
  empty and has none of the input, output and assignment forms, it is written with \<open>;\<close> as
  one line at the current indent, and no diagnostic is recorded.
\<close>

theorem generate_action_other:
  assumes "content \<noteq> []"
    and "c = replace (asc ''!='') (asc ''<>'') (strip content)"
    and "c \<noteq> []"
    and "\<not> startswith c str_vvod" and "\<not> startswith c str_vyvod"
    and "simple_assign_match c = None"
  shows "generate_action (Some content) line pos g =
           g\<lparr> code_lines := code_lines g @
                  [concat (replicate (indent_level g) (asc ''    '')) @ c @ asc '';''] \<rparr> \<and>
         g_errors (generate_action (Some content) line pos g) = g_errors g"
  using assms by (simp add: generate_action_def add_line_def Let_def)

theorem generate_action_other_witness:
  "asc ''a[1] != 2'' \<noteq> [] \<and>
   asc ''a[1] <> 2'' = replace (asc ''!='') (asc ''<>'') (strip (asc ''a[1] != 2'')) \<and>
   \<not> startswith (asc ''a[1] <> 2'') str_vvod \<and> \<not> startswith (asc ''a[1] <> 2'') str_vyvod \<and>
   simple_assign_match (asc ''a[1] <> 2'') = None \<and>
   generate_action (Some (asc ''a[1] != 2'')) 3 0
       \<lparr> code_lines = [], g_errors = [], indent_level = 1 \<rparr> =
     \<lparr> code_lines = [asc ''    a[1] <> 2;''], g_errors = [], indent_level = 1 \<rparr>"
proof -
  have h: "asc ''a[1] != 2'' \<noteq> []"
    "asc ''a[1] <> 2'' = replace (asc ''!='') (asc ''<>'') (strip (asc ''a[1] != 2''))"
    "asc ''a[1] <> 2'' \<noteq> []"
    "\<not> startswith (asc ''a[1] <> 2'') str_vvod" "\<not> startswith (asc ''a[1] <> 2'') str_vyvod"
    "simple_assign_match (asc ''a[1] <> 2'') = None"
    by (simp_all add: string_eval pattern_eval)
  from generate_action_other [OF h, of 3 0 "\<lparr> code_lines = [], g_errors = [], indent_level = 1 \<rparr>"] h
  show ?thesis by (simp add: asc_def)
qed


text \<open>
  C2, as stated, fails for a loop node that has the condition \<open>i := 1 to 10\<close> and no body
  (the parser builds it from \<open>while (i := 1 to 10) is (y) endwhile (n)\<close>): the generator
  checks for the body first, writes no line at all and records that the body is missing.
\<close>

theorem for_loop_without_body:
  "visit (Node (asc ''while_loop_node'') None
            [Node (asc ''condition_content'') (Some (asc ''i := 1 to 10'')) [] 1 7] 1 0)
         \<lparr> code_lines = [], g_errors = [], indent_level = 1 \<rparr>
     = \<lparr> code_lines = [],
         g_errors = [\<lparr> d_type = asc ''error'', d_line = 1, d_pos = - 1,
                       d_message = msg_no_loop_body, d_source = asc ''generator'' \<rparr>],
         indent_level = 1 \<rparr>"
  by (simp add: visit.simps generate_while.simps condition_of_def last_child_def record_error_def
        string_eval)

text \<open>
  C2, amended. For a pre-test loop node that has a body and whose condition is
  \<open>i := 1 to 10\<close>, the generator writes the header \<open>FOR i := 1 TO 10 DO\<close>, \<open>BEGIN\<close>, the
  statements of the body one level deeper, and \<open>END;\<close>; the \<open>WHILE\<close> header is not written.
\<close>

theorem for_loop_header:
  assumes "ntype node = asc ''while_loop_node''"
    and "condition_of (children node) = Some (asc ''i := 1 to 10'')"
    and "last_child ''while_body'' (children node) = Some body"
  shows "visit node g =
           add_line (asc ''END;'')
             (dedent (fold (\<lambda>stmt g. visit stmt g) (children body)
                (indent (add_line (asc ''BEGIN'') (add_line (asc ''FOR i := 1 TO 10 DO'') g)))))"
proof -
  have m: "for_loop_match (asc ''i := 1 to 10'') = Some (asc ''i'', asc ''1'', asc ''to'', asc ''10'')"
    by (simp add: pattern_eval string_eval)
  have h: "for_header (asc ''i'', asc ''1'', asc ''to'', asc ''10'') = asc ''FOR i := 1 TO 10 DO''"
    by (simp add: for_header_def process_string_literals_def match_quoted_def quoted_to_end_def
          is_quote_def string_eval)
  have t: "asc ''while_loop_node'' \<noteq> asc ''action_node''"
    "asc ''while_loop_node'' \<noteq> asc ''if_statement''"
    by (simp_all add: asc_def)
  have c: "asc ''i := 1 to 10'' \<noteq> []" by (simp add: asc_def)
  show ?thesis
    using assms t c by (simp add: visit.simps [of node] generate_while.simps [of node] m h)
qed

theorem for_loop_header_witness:
  "code_lines (visit (Node (asc ''while_loop_node'') None
            [Node (asc ''condition_content'') (Some (asc ''i := 1 to 10'')) [] 1 7,
             Node (asc ''while_body'') None
               [Node (asc ''action_node'') None
                  [Node (asc ''action_content'') (Some (asc ''s := s + i'')) [] 2 1] 2 0] 0 0] 1 0)
         \<lparr> code_lines = [], g_errors = [], indent_level = 0 \<rparr>)
     = [asc ''FOR i := 1 TO 10 DO'', asc ''BEGIN'', asc ''    s := s + i;'', asc ''END;'']"
proof -
  let ?body = "Node (asc ''while_body'') None
               [Node (asc ''action_node'') None
                  [Node (asc ''action_content'') (Some (asc ''s := s + i'')) [] 2 1] 2 0] 0 0"
  let ?node = "Node (asc ''while_loop_node'') None
            [Node (asc ''condition_content'') (Some (asc ''i := 1 to 10'')) [] 1 7, ?body] 1 0"
  have a: "ntype ?node = asc ''while_loop_node''" by simp
  have b: "condition_of (children ?node) = Some (asc ''i := 1 to 10'')"
    by (simp add: condition_of_def last_child_def string_eval)
  have c: "last_child ''while_body'' (children ?node) = Some ?body"
    by (simp add: last_child_def asc_def)
  have d: "visit (Node (asc ''action_node'') None
                  [Node (asc ''action_content'') (Some (asc ''s := s + i'')) [] 2 1] 2 0) g
            = add_line (asc ''s := s + i;'') g" for g
    by (simp add: visit.simps visit_actions_def generate_action_def string_eval pattern_eval)
  show ?thesis
    unfolding for_loop_header [OF a b c]
    by (simp add: d) (simp add: add_line_def indent_def dedent_def asc_def)
qed




end
